theory Spec2Isabelle
  imports Main "HOL-Library.AList" "HOL-Library.Char_ord" "HOL-Library.List_Lexorder"
begin

section \<open>Project configuration: flattening and provisioning (apps/backend/src/lib/projects.tsx)\<close>

subsection \<open>Errors\<close>

text \<open>
  Every throw of the source is a value. \<open>StackAssertionError\<close> is the class the source
  constructs itself (\<^verbatim>\<open>throw new StackAssertionError(msg, extra)\<close>; the diagnostic
  payload \<open>extra\<close> is left out). \<open>ThrowErr msg\<close> is what the imported helper
  \<^verbatim>\<open>throwErr(msg)\<close> raises, \<open>ProviderCheckError\<close> what the imported helpers
  \<^verbatim>\<open>ensureSharedProvider\<close> and \<^verbatim>\<open>ensureStandardProvider\<close> raise.
  \<open>UniqueConstraintError\<close> and \<open>RecordNotFoundError\<close> are raised by the store,
  \<open>TypeError\<close> by the JavaScript runtime when a non-iterable is spread into an array.
\<close>

datatype error =
    StackAssertionError string
  | ThrowErr string
  | ProviderCheckError string
  | UniqueConstraintError string
  | RecordNotFoundError string
  | TypeError string

definition bindE :: "error + 'a \<Rightarrow> ('a \<Rightarrow> error + 'b) \<Rightarrow> error + 'b" where
  "bindE m f = (case m of Inl e \<Rightarrow> Inl e | Inr x \<Rightarrow> f x)"

fun mapE :: "('a \<Rightarrow> error + 'b) \<Rightarrow> 'a list \<Rightarrow> error + 'b list" where
  "mapE f [] = Inr []"
| "mapE f (x # xs) = bindE (f x) (\<lambda>y. bindE (mapE f xs) (\<lambda>ys. Inr (y # ys)))"

subsection \<open>JSON values (Prisma's JsonValue) and server metadata\<close>

text \<open>
  Numbers are modelled as integers: no claim depends on their arithmetic. An object is
  an association list, so that the order of its keys is kept.
\<close>

datatype json =
    JNull
  | JBool bool
  | JNumber int
  | JString string
  | JArray "json list"
  | JObject "(string \<times> json) list"

text \<open>\<^verbatim>\<open>typeof v\<close>; \<open>None\<close> is \<^verbatim>\<open>undefined\<close>.\<close>

fun typeof :: "json option \<Rightarrow> string" where
  "typeof None = ''undefined''"
| "typeof (Some JNull) = ''object''"
| "typeof (Some (JBool b)) = ''boolean''"
| "typeof (Some (JNumber n)) = ''number''"
| "typeof (Some (JString s)) = ''string''"
| "typeof (Some (JArray xs)) = ''object''"
| "typeof (Some (JObject kvs)) = ''object''"

text \<open>
  \<^verbatim>\<open>v?.managedProjectIds\<close> for a value \<open>v\<close> that is not \<^verbatim>\<open>undefined\<close>: only an
  object can own the property; on \<^verbatim>\<open>null\<close> the optional chain gives
  \<^verbatim>\<open>undefined\<close>, on a primitive or an array the property does not exist.
\<close>

fun managedProjectIdsProp :: "json \<Rightarrow> json option" where
  "managedProjectIdsProp (JObject kvs) = map_of kvs ''managedProjectIds''"
| "managedProjectIdsProp v = None"

text \<open>\<^verbatim>\<open>x ?? d\<close> on a property read: \<^verbatim>\<open>undefined\<close> and \<^verbatim>\<open>null\<close> both give \<open>d\<close>.\<close>

fun nullish :: "json option \<Rightarrow> json \<Rightarrow> json" where
  "nullish None d = d"
| "nullish (Some JNull) d = d"
| "nullish (Some v) d = v"

fun isString :: "json \<Rightarrow> bool" where
  "isString (JString s) = True"
| "isString v = False"

fun isStringArray :: "json \<Rightarrow> bool" where
  "isStringArray (JArray xs) = list_all isString xs"
| "isStringArray v = False"

fun stringValues :: "json \<Rightarrow> string list" where
  "stringValues (JArray xs) = concat (map (\<lambda>x. case x of JString s \<Rightarrow> [s] | _ \<Rightarrow> []) xs)"
| "stringValues v = []"

text \<open>Of \<^verbatim>\<open>UsersCrud["Admin"]["Read"]\<close> only \<open>server_metadata\<close> is read.\<close>

record usersCrudRead =
  server_metadata :: "json option"

definition listManagedProjectIds :: "usersCrudRead \<Rightarrow> error + string list" where
  "listManagedProjectIds projectUser =
     (let serverMetadata = server_metadata projectUser in
      if typeof serverMetadata \<noteq> ''object''
      then Inl (StackAssertionError ''Invalid server metadata, did something go wrong?'')
      else
        let managedProjectIds =
              nullish (case serverMetadata of None \<Rightarrow> None | Some v \<Rightarrow> managedProjectIdsProp v)
                      (JArray [])
        in if \<not> isStringArray managedProjectIds
           then Inl (StackAssertionError
                  ''Invalid server metadata, did something go wrong? Expected string array'')
           else Inr (stringValues managedProjectIds))"

subsection \<open>The configuration graph as the store returns it (ProjectDB)\<close>

text \<open>
  \<^verbatim>\<open>Prisma.ProjectGetPayload<{ include: typeof fullProjectInclude }>\<close>: every relation
  of \<open>fullProjectInclude\<close> is loaded and nested. A nullable relation or column is an
  \<open>option\<close>. Field names are the store's; \<open>id\<close> carries the name of its table, and
  \<open>_count.users\<close> is \<open>userCount\<close>. The \<open>passwordConfig\<close> and \<open>passkeyConfig\<close>
  rows and the proxied email row have no column that is read, so they are \<open>unit\<close>.
\<close>

record proxiedOAuthConfigDB =
  proxiedType :: string

record standardOAuthConfigDB =
  standardType :: string
  clientId :: string
  clientSecret :: string
  facebookConfigId :: "string option"
  microsoftTenantId :: "string option"

record oauthProviderConfigDB =
  oauthProviderConfigId :: string
  proxiedOAuthConfig :: "proxiedOAuthConfigDB option"
  standardOAuthConfig :: "standardOAuthConfigDB option"

record otpConfigDB =
  contactChannelType :: string

record authMethodConfigDB =
  authMethodConfigId :: string
  authMethodEnabled :: bool
  authMethodOAuthProviderConfig :: "oauthProviderConfigDB option"
  otpConfig :: "otpConfigDB option"
  passwordConfig :: "unit option"
  passkeyConfig :: "unit option"

record connectedAccountConfigDB =
  connectedAccountConfigId :: string
  connectedAccountEnabled :: bool
  connectedAccountOAuthProviderConfig :: "oauthProviderConfigDB option"

record standardEmailServiceConfigDB =
  host :: string
  port :: int
  username :: string
  password :: string
  senderEmail :: string
  senderName :: string

record emailServiceConfigDB =
  proxiedEmailServiceConfig :: "unit option"
  standardEmailServiceConfig :: "standardEmailServiceConfigDB option"

record projectDomainDB =
  domainName :: string
  handlerPath :: string

record permissionEdgeDB =
  parentTeamSystemPermission :: "string option"
  parentPermissionDbId :: "string option"

record permissionDB =
  permissionProjectId :: string
  permissionProjectConfigId :: string
  queryableId :: string
  permissionDescription :: string
  permissionScope :: string
  parentEdges :: "permissionEdgeDB list"
  isDefaultTeamCreatorPermission :: bool
  isDefaultTeamMemberPermission :: bool

record projectConfigDB =
  configId :: string
  allowLocalhost :: bool
  signUpEnabled :: bool
  createTeamOnSignUp :: bool
  clientTeamCreationEnabled :: bool
  clientUserDeletionEnabled :: bool
  legacyGlobalJwtSigning :: bool
  teamCreateDefaultSystemPermissions :: "string list"
  teamMemberDefaultSystemPermissions :: "string list"
  oauthProviderConfigs :: "oauthProviderConfigDB list"
  emailServiceConfig :: "emailServiceConfigDB option"
  permissions :: "permissionDB list"
  authMethodConfigs :: "authMethodConfigDB list"
  connectedAccountConfigs :: "connectedAccountConfigDB list"
  domains :: "projectDomainDB list"

record projectDB =
  projectId :: string
  displayName :: string
  description :: "string option"
  createdAt :: int
  isProductionMode :: bool
  userCount :: nat
  config :: projectConfigDB

subsection \<open>The flattened view (ProjectsCrud["Admin"]["Read"])\<close>

datatype variantType = Shared | Standard

record oauthProviderCrud =
  oauth_id :: string
  oauth_enabled :: bool
  oauth_type :: variantType
  client_id :: "string option"
  client_secret :: "string option"
  facebook_config_id :: "string option"
  microsoft_tenant_id :: "string option"

record emailConfigCrud =
  email_type :: variantType
  email_host :: "string option"
  email_port :: "int option"
  email_username :: "string option"
  email_password :: "string option"
  sender_email :: "string option"
  sender_name :: "string option"

record domainCrud =
  domain :: string
  handler_path :: string

record configRead =
  config_id :: string
  allow_localhost :: bool
  sign_up_enabled :: bool
  credential_enabled :: bool
  magic_link_enabled :: bool
  passkey_enabled :: bool
  create_team_on_sign_up :: bool
  client_team_creation_enabled :: bool
  client_user_deletion_enabled :: bool
  legacy_global_jwt_signing :: bool
  read_domains :: "domainCrud list"
  oauth_providers :: "oauthProviderCrud list"
  enabled_oauth_providers :: "oauthProviderCrud list"
  email_config :: emailConfigCrud
  team_creator_default_permissions :: "string list"
  team_member_default_permissions :: "string list"

record projectRead =
  read_id :: string
  display_name :: string
  read_description :: string
  created_at_millis :: int
  user_count :: nat
  is_production_mode :: bool
  read_config :: configRead

subsection \<open>Imported helpers and schema constants\<close>

text \<open>
  What the source imports and this file does not define is a parameter:
  \<^item> \<open>localeCompare\<close>: \<^verbatim>\<open>a.localeCompare(b)\<close>, the host's collation;
  \<^item> \<open>permissionJsonId\<close>: the \<open>id\<close> of \<^verbatim>\<open>teamPermissionDefinitionJsonFromDbType(perm)\<close>;
  \<^item> \<open>systemPermissionJsonId\<close>: the \<open>id\<close> of
    \<^verbatim>\<open>teamPermissionDefinitionJsonFromTeamSystemDbType(perm)\<close>;
  \<^item> \<open>sharedProviders\<close>, \<open>standardProviders\<close>: the allowlists behind
    \<^verbatim>\<open>ensureSharedProvider\<close> and \<^verbatim>\<open>ensureStandardProvider\<close>;
  \<^item> \<open>defaultSignUpEnabled\<close>, \<open>defaultLegacyGlobalJwtSigning\<close>,
    \<open>defaultTeamCreateSystemPermissions\<close>, \<open>defaultTeamMemberSystemPermissions\<close>: the
    schema's defaults of the columns \<open>createProject\<close> does not set.
\<close>

record env =
  localeCompare :: "string \<Rightarrow> string \<Rightarrow> int"
  permissionJsonId :: "permissionDB \<Rightarrow> string"
  systemPermissionJsonId :: "string \<Rightarrow> string"
  sharedProviders :: "string list"
  standardProviders :: "string list"
  defaultSignUpEnabled :: bool
  defaultLegacyGlobalJwtSigning :: bool
  defaultTeamCreateSystemPermissions :: "string list"
  defaultTeamMemberSystemPermissions :: "string list"

text \<open>
  \<^verbatim>\<open>typedToLowercase\<close>, \<^verbatim>\<open>typedToUppercase\<close>: the string's
  \<^verbatim>\<open>toLowerCase()\<close>, \<^verbatim>\<open>toUpperCase()\<close>, here on ASCII (provider ids and the
  store's provider enum are ASCII letters).
\<close>

definition toLowerChar :: "char \<Rightarrow> char" where
  "toLowerChar c =
     (case map_of (zip ''ABCDEFGHIJKLMNOPQRSTUVWXYZ'' ''abcdefghijklmnopqrstuvwxyz'') c of
        Some l \<Rightarrow> l
      | None \<Rightarrow> c)"

definition toUpperChar :: "char \<Rightarrow> char" where
  "toUpperChar c =
     (case map_of (zip ''abcdefghijklmnopqrstuvwxyz'' ''ABCDEFGHIJKLMNOPQRSTUVWXYZ'') c of
        Some u \<Rightarrow> u
      | None \<Rightarrow> c)"

definition typedToLowercase :: "string \<Rightarrow> string" where
  "typedToLowercase s = map toLowerChar s"

definition typedToUppercase :: "string \<Rightarrow> string" where
  "typedToUppercase s = map toUpperChar s"

text \<open>
  \<^verbatim>\<open>xs.sort(cmp)\<close>: the sort of the language is stable; with a comparator that is a
  total preorder its result is the stable insertion sort's.
\<close>

fun insertSorted :: "('a \<Rightarrow> 'a \<Rightarrow> int) \<Rightarrow> 'a \<Rightarrow> 'a list \<Rightarrow> 'a list" where
  "insertSorted cmp x [] = [x]"
| "insertSorted cmp x (y # ys) =
     (if cmp x y \<le> 0 then x # y # ys else y # insertSorted cmp x ys)"

fun arraySort :: "('a \<Rightarrow> 'a \<Rightarrow> int) \<Rightarrow> 'a list \<Rightarrow> 'a list" where
  "arraySort cmp [] = []"
| "arraySort cmp (x # xs) = insertSorted cmp x (arraySort cmp xs)"

subsection \<open>projectPrismaToCrud\<close>

text \<open>The three messages of the reader's assertions (template strings of the source).\<close>

definition providerConfigsMessage :: "string \<Rightarrow> string \<Rightarrow> string" where
  "providerConfigsMessage authMethodId prismaId =
     ''Exactly one of the provider configs should be set on provider config '' @
     [CHR 0x27] @ authMethodId @ [CHR 0x27] @ '' of project '' @ [CHR 0x27] @ prismaId @ [CHR 0x27]"

definition emailConfigMissingMessage :: "string \<Rightarrow> string" where
  "emailConfigMissingMessage prismaId =
     ''Email service config should be set on project '' @ [CHR 0x27] @ prismaId @ [CHR 0x27]"

definition emailConfigsMessage :: "string \<Rightarrow> string" where
  "emailConfigsMessage prismaId =
     ''Exactly one of the email service configs should be set on project '' @
     [CHR 0x27] @ prismaId @ [CHR 0x27]"

text \<open>The callback of the first \<open>map\<close>; \<open>None\<close> is its \<^verbatim>\<open>undefined\<close>.\<close>

definition oauthProviderOfAuthMethod ::
  "string \<Rightarrow> authMethodConfigDB \<Rightarrow> error + oauthProviderCrud option" where
  "oauthProviderOfAuthMethod prismaId cfg =
     (case authMethodOAuthProviderConfig cfg of
        None \<Rightarrow> Inr None
      | Some providerConfig \<Rightarrow>
          (case proxiedOAuthConfig providerConfig of
             Some proxied \<Rightarrow>
               Inr (Some \<lparr>oauth_id = typedToLowercase (proxiedType proxied),
                          oauth_enabled = authMethodEnabled cfg,
                          oauth_type = Shared,
                          client_id = None, client_secret = None,
                          facebook_config_id = None, microsoft_tenant_id = None\<rparr>)
           | None \<Rightarrow>
               (case standardOAuthConfig providerConfig of
                  Some standard \<Rightarrow>
                    Inr (Some \<lparr>oauth_id = typedToLowercase (standardType standard),
                               oauth_enabled = authMethodEnabled cfg,
                               oauth_type = Standard,
                               client_id = Some (clientId standard),
                               client_secret = Some (clientSecret standard),
                               facebook_config_id = facebookConfigId standard,
                               microsoft_tenant_id = microsoftTenantId standard\<rparr>)
                | None \<Rightarrow>
                    Inl (StackAssertionError
                      (providerConfigsMessage (authMethodConfigId cfg) prismaId)))))"

definition emailConfigOfProject :: "projectDB \<Rightarrow> error + emailConfigCrud" where
  "emailConfigOfProject prisma =
     (case emailServiceConfig (config prisma) of
        None \<Rightarrow>
          Inl (StackAssertionError (emailConfigMissingMessage (projectId prisma)))
      | Some esc \<Rightarrow>
          (case proxiedEmailServiceConfig esc of
             Some proxied \<Rightarrow>
               Inr \<lparr>email_type = Shared, email_host = None, email_port = None,
                    email_username = None, email_password = None,
                    sender_email = None, sender_name = None\<rparr>
           | None \<Rightarrow>
               (case standardEmailServiceConfig esc of
                  Some standardEmailConfig \<Rightarrow>
                    Inr \<lparr>email_type = Standard,
                         email_host = Some (host standardEmailConfig),
                         email_port = Some (port standardEmailConfig),
                         email_username = Some (username standardEmailConfig),
                         email_password = Some (password standardEmailConfig),
                         sender_email = Some (senderEmail standardEmailConfig),
                         sender_name = Some (senderName standardEmailConfig)\<rparr>
                | None \<Rightarrow>
                    Inl (StackAssertionError (emailConfigsMessage (projectId prisma))))))"

definition defaultPermissionIds ::
  "env \<Rightarrow> (permissionDB \<Rightarrow> bool) \<Rightarrow> string list \<Rightarrow> permissionDB list \<Rightarrow> string list" where
  "defaultPermissionIds e flag systemPermissions perms =
     arraySort (localeCompare e)
       (map (permissionJsonId e) (filter flag perms) @
        map (systemPermissionJsonId e) systemPermissions)"

definition projectPrismaToCrud :: "env \<Rightarrow> projectDB \<Rightarrow> error + projectRead" where
  "projectPrismaToCrud e prisma =
     bindE (mapE (oauthProviderOfAuthMethod (projectId prisma))
              (authMethodConfigs (config prisma)))
       (\<lambda>mapped.
          let oauthProviders =
                arraySort (\<lambda>a b. localeCompare e (oauth_id a) (oauth_id b))
                  (concat (map (\<lambda>provider. case provider of None \<Rightarrow> [] | Some p \<Rightarrow> [p]) mapped));
              passwordAuth =
                find (\<lambda>cfg. passwordConfig cfg \<noteq> None \<and> authMethodEnabled cfg)
                  (authMethodConfigs (config prisma));
              otpAuth =
                find (\<lambda>cfg. otpConfig cfg \<noteq> None \<and> authMethodEnabled cfg)
                  (authMethodConfigs (config prisma));
              passkeyAuth =
                find (\<lambda>cfg. passkeyConfig cfg \<noteq> None \<and> authMethodEnabled cfg)
                  (authMethodConfigs (config prisma))
          in bindE (emailConfigOfProject prisma)
               (\<lambda>emailConfig.
                  Inr \<lparr>read_id = projectId prisma,
                       display_name = displayName prisma,
                       read_description = (case description prisma of None \<Rightarrow> [] | Some d \<Rightarrow> d),
                       created_at_millis = createdAt prisma,
                       user_count = userCount prisma,
                       is_production_mode = isProductionMode prisma,
                       read_config =
                         \<lparr>config_id = configId (config prisma),
                          allow_localhost = allowLocalhost (config prisma),
                          sign_up_enabled = signUpEnabled (config prisma),
                          credential_enabled = (passwordAuth \<noteq> None),
                          magic_link_enabled = (otpAuth \<noteq> None),
                          passkey_enabled = (passkeyAuth \<noteq> None),
                          create_team_on_sign_up = createTeamOnSignUp (config prisma),
                          client_team_creation_enabled = clientTeamCreationEnabled (config prisma),
                          client_user_deletion_enabled = clientUserDeletionEnabled (config prisma),
                          legacy_global_jwt_signing = legacyGlobalJwtSigning (config prisma),
                          read_domains =
                            arraySort (\<lambda>a b. localeCompare e (domain a) (domain b))
                              (map (\<lambda>d. \<lparr>domain = domainName d, handler_path = handlerPath d\<rparr>)
                                 (domains (config prisma))),
                          oauth_providers = oauthProviders,
                          enabled_oauth_providers = filter oauth_enabled oauthProviders,
                          email_config = emailConfig,
                          team_creator_default_permissions =
                            defaultPermissionIds e isDefaultTeamCreatorPermission
                              (teamCreateDefaultSystemPermissions (config prisma))
                              (permissions (config prisma)),
                          team_member_default_permissions =
                            defaultPermissionIds e isDefaultTeamMemberPermission
                              (teamMemberDefaultSystemPermissions (config prisma))
                              (permissions (config prisma))\<rparr>\<rparr>))"

subsection \<open>The creation request (InternalProjectsCrud["Admin"]["Create"])\<close>

text \<open>
  Every field of \<open>config\<close> is optional; \<open>None\<close> is an absent (or \<^verbatim>\<open>null\<close>) field.
  An entry of \<open>oauth_providers\<close>, \<open>domains\<close> and the \<open>email_config\<close> have the shape of
  the view's, with the credential fields optional.
\<close>

record configCreate =
  req_sign_up_enabled :: "bool option"
  req_allow_localhost :: "bool option"
  req_create_team_on_sign_up :: "bool option"
  req_client_team_creation_enabled :: "bool option"
  req_client_user_deletion_enabled :: "bool option"
  req_domains :: "domainCrud list option"
  req_oauth_providers :: "oauthProviderCrud list option"
  req_email_config :: "emailConfigCrud option"
  req_magic_link_enabled :: "bool option"
  req_credential_enabled :: "bool option"
  req_passkey_enabled :: "bool option"

record projectCreate =
  req_display_name :: string
  req_description :: "string option"
  req_is_production_mode :: "bool option"
  req_config :: "configCreate option"

text \<open>\<^verbatim>\<open>data.config?.field\<close>\<close>

definition configField :: "(configCreate \<Rightarrow> 'a option) \<Rightarrow> projectCreate \<Rightarrow> 'a option" where
  "configField field data = (case req_config data of None \<Rightarrow> None | Some c \<Rightarrow> field c)"

text \<open>\<^verbatim>\<open>x ?? d\<close> and \<^verbatim>\<open>x ?? throwErr(msg)\<close>\<close>

definition orDefault :: "'a option \<Rightarrow> 'a \<Rightarrow> 'a" where
  "orDefault x d = (case x of None \<Rightarrow> d | Some v \<Rightarrow> v)"

definition orThrowErr :: "'a option \<Rightarrow> string \<Rightarrow> error + 'a" where
  "orThrowErr x msg = (case x of None \<Rightarrow> Inl (ThrowErr msg) | Some v \<Rightarrow> Inr v)"

text \<open>
  Modelled from the spec: \<^verbatim>\<open>ensureSharedProvider\<close> and \<^verbatim>\<open>ensureStandardProvider\<close> of
  \<^verbatim>\<open>./request-checks\<close> are imported, not defined here. The spec has them validate that
  the provider id is a member of the shared (standard) allowlist; they return the id.
\<close>

definition ensureSharedProvider :: "env \<Rightarrow> string \<Rightarrow> error + string" where
  "ensureSharedProvider e providerId =
     (if providerId \<in> set (sharedProviders e) then Inr providerId
      else Inl (ProviderCheckError providerId))"

definition ensureStandardProvider :: "env \<Rightarrow> string \<Rightarrow> error + string" where
  "ensureStandardProvider e providerId =
     (if providerId \<in> set (standardProviders e) then Inr providerId
      else Inl (ProviderCheckError providerId))"

datatype errorCategory = ValidationError | InvariantViolation | StoreFailure | RuntimeFailure

text \<open>
  Modelled from the spec: \<^verbatim>\<open>throwErr\<close> (stack-shared, \<open>utils/errors\<close>) and the two
  provider checks are imported, so the class of what they throw is not in the sources.
  The spec's taxonomy: a missing required credential or email field and an unknown
  provider id are a ValidationError; both or neither variant populated, a missing email
  config and an oauth entry absent from the request list are an InvariantViolation.
\<close>

fun category :: "error \<Rightarrow> errorCategory" where
  "category (StackAssertionError msg) = InvariantViolation"
| "category (ThrowErr msg) =
     (if msg = ''oauth provider not found'' then InvariantViolation else ValidationError)"
| "category (ProviderCheckError msg) = ValidationError"
| "category (UniqueConstraintError msg) = StoreFailure"
| "category (RecordNotFoundError msg) = StoreFailure"
| "category (TypeError msg) = RuntimeFailure"

subsection \<open>The store\<close>

text \<open>
  A project is stored as its loaded graph, under its id; a user under
  \<open>(projectId, projectUserId)\<close>, with its \<open>serverMetadata\<close> (\<open>JNull\<close> for a null column).
  \<open>capturedErrors\<close> is what \<^verbatim>\<open>captureError\<close> has recorded; it is not part of the
  database, so a rollback leaves it.
\<close>

record projectUserDB =
  serverMetadata :: json

record database =
  projects :: "string \<rightharpoonup> projectDB"
  projectUsers :: "(string \<times> string) \<rightharpoonup> projectUserDB"

record world =
  db :: database
  capturedErrors :: "(string \<times> error) list"

text \<open>
  What the store and the host generate during one call: the value of
  \<^verbatim>\<open>generateUuid()\<close>, the ids the store gives to the rows it creates, and the clock.
\<close>

record fresh =
  newProjectId :: string
  newConfigId :: string
  newAuthMethodConfigId :: "nat \<Rightarrow> string"
  newConnectedAccountConfigId :: "nat \<Rightarrow> string"
  now :: int

text \<open>
  Modelled from the spec: the constraints of the store's schema, which is not among the
  sources. \<^verbatim>\<open>tx.project.create\<close> inserts the project with its configuration; the
  store enforces the primary key of a project and the uniqueness of
  \<open>(configId, providerId)\<close> (the compound key \<open>projectConfigId_id\<close> of the source's
  \<^verbatim>\<open>connect\<close>) and of \<open>(configId, domain)\<close>.
\<close>

definition txProjectCreate :: "projectDB \<Rightarrow> database \<Rightarrow> error + database" where
  "txProjectCreate p d =
     (if projects d (projectId p) \<noteq> None then Inl (UniqueConstraintError ''Project.id'')
      else if \<not> distinct (map oauthProviderConfigId (oauthProviderConfigs (config p)))
      then Inl (UniqueConstraintError ''OAuthProviderConfig.projectConfigId_id'')
      else if \<not> distinct (map domainName (domains (config p)))
      then Inl (UniqueConstraintError ''ProjectDomain.projectConfigId_domain'')
      else Inr (d\<lparr>projects := (projects d)(projectId p \<mapsto> p)\<rparr>))"

text \<open>
  \<^verbatim>\<open>tx.projectConfig.update\<close> on the configuration of project \<open>pid\<close>; an update of a
  record that does not exist fails.
\<close>

definition txProjectConfigUpdate ::
  "string \<Rightarrow> (projectConfigDB \<Rightarrow> error + projectConfigDB) \<Rightarrow> database \<Rightarrow> error + database" where
  "txProjectConfigUpdate pid f d =
     (case projects d pid of
        None \<Rightarrow> Inl (RecordNotFoundError ''ProjectConfig'')
      | Some p \<Rightarrow>
          bindE (f (config p))
            (\<lambda>c. Inr (d\<lparr>projects := (projects d)(pid \<mapsto> p\<lparr>config := c\<rparr>)\<rparr>)))"

text \<open>
  \<^verbatim>\<open>connect: { projectConfigId_id: { projectConfigId, id } }\<close>: the provider
  configuration with that compound key; connecting to none fails.
\<close>

definition connectOAuthProviderConfig ::
  "projectConfigDB \<Rightarrow> string \<times> string \<Rightarrow> error + oauthProviderConfigDB" where
  "connectOAuthProviderConfig c key =
     (case find (\<lambda>pc. configId c = fst key \<and> oauthProviderConfigId pc = snd key)
             (oauthProviderConfigs c) of
        None \<Rightarrow> Inl (RecordNotFoundError ''OAuthProviderConfig'')
      | Some pc \<Rightarrow> Inr pc)"

text \<open>The elements of \<^verbatim>\<open>authMethodConfigs: { create: [...] }\<close> and of
  \<^verbatim>\<open>connectedAccountConfigs: { create: [...] }\<close>.\<close>

record authMethodConfigCreate =
  create_enabled :: bool
  create_oauthProviderConfig :: "(string \<times> string) option"
  create_otpConfig :: "otpConfigDB option"
  create_passwordConfig :: "unit option"
  create_passkeyConfig :: "unit option"

record connectedAccountConfigCreate =
  connected_enabled :: bool
  connected_oauthProviderConfig :: "string \<times> string"

definition authMethodConfigRow ::
  "fresh \<Rightarrow> projectConfigDB \<Rightarrow> nat \<times> authMethodConfigCreate \<Rightarrow> error + authMethodConfigDB" where
  "authMethodConfigRow gen c ix =
     bindE (case create_oauthProviderConfig (snd ix) of
              None \<Rightarrow> Inr None
            | Some key \<Rightarrow> bindE (connectOAuthProviderConfig c key) (\<lambda>pc. Inr (Some pc)))
       (\<lambda>provider.
          Inr \<lparr>authMethodConfigId = newAuthMethodConfigId gen (fst ix),
               authMethodEnabled = create_enabled (snd ix),
               authMethodOAuthProviderConfig = provider,
               otpConfig = create_otpConfig (snd ix),
               passwordConfig = create_passwordConfig (snd ix),
               passkeyConfig = create_passkeyConfig (snd ix)\<rparr>)"

definition connectedAccountConfigRow ::
  "fresh \<Rightarrow> projectConfigDB \<Rightarrow> nat \<times> connectedAccountConfigCreate \<Rightarrow>
     error + connectedAccountConfigDB" where
  "connectedAccountConfigRow gen c ix =
     bindE (connectOAuthProviderConfig c (connected_oauthProviderConfig (snd ix)))
       (\<lambda>pc.
          Inr \<lparr>connectedAccountConfigId = newConnectedAccountConfigId gen (fst ix),
               connectedAccountEnabled = connected_enabled (snd ix),
               connectedAccountOAuthProviderConfig = Some pc\<rparr>)"

definition txCreateAuthMethodConfigs ::
  "fresh \<Rightarrow> string \<Rightarrow> authMethodConfigCreate list \<Rightarrow> database \<Rightarrow> error + database" where
  "txCreateAuthMethodConfigs gen pid creates d =
     txProjectConfigUpdate pid
       (\<lambda>c. bindE (mapE (authMethodConfigRow gen c) (enumerate 0 creates))
               (\<lambda>rows. Inr (c\<lparr>authMethodConfigs := authMethodConfigs c @ rows\<rparr>))) d"

definition txCreateConnectedAccountConfigs ::
  "fresh \<Rightarrow> string \<Rightarrow> connectedAccountConfigCreate list \<Rightarrow> database \<Rightarrow> error + database" where
  "txCreateConnectedAccountConfigs gen pid creates d =
     txProjectConfigUpdate pid
       (\<lambda>c. bindE (mapE (connectedAccountConfigRow gen c) (enumerate 0 creates))
               (\<lambda>rows. Inr (c\<lparr>connectedAccountConfigs := connectedAccountConfigs c @ rows\<rparr>))) d"

text \<open>\<^verbatim>\<open>tx.permission.create\<close>: the row joins the configuration of its project.\<close>

definition txPermissionCreate :: "permissionDB \<Rightarrow> database \<Rightarrow> error + database" where
  "txPermissionCreate perm d =
     txProjectConfigUpdate (permissionProjectId perm)
       (\<lambda>c. Inr (c\<lparr>permissions := permissions c @ [perm]\<rparr>)) d"

text \<open>
  \<^verbatim>\<open>prismaClient.$transaction(body)\<close>: when the body throws, the database is what it
  was before.
\<close>

definition transaction ::
  "(world \<Rightarrow> (error + 'a) \<times> world) \<Rightarrow> world \<Rightarrow> (error + 'a) \<times> world" where
  "transaction body w =
     (case body w of
        (Inl err, w') \<Rightarrow> (Inl err, w'\<lparr>db := db w\<rparr>)
      | (Inr r, w') \<Rightarrow> (Inr r, w'))"

text \<open>Modelled from the spec: \<^verbatim>\<open>captureError\<close> is imported; the spec has it record a
  non-fatal anomaly.\<close>

definition captureError :: "string \<Rightarrow> error \<Rightarrow> world \<Rightarrow> world" where
  "captureError location err w = w\<lparr>capturedErrors := capturedErrors w @ [(location, err)]\<rparr>"

subsection \<open>createProject: the data of \<^verbatim>\<open>tx.project.create\<close>\<close>

definition oauthProviderConfigCreate :: "env \<Rightarrow> oauthProviderCrud \<Rightarrow> error + oauthProviderConfigDB" where
  "oauthProviderConfigCreate e item =
     bindE (if oauth_type item = Shared
            then bindE (ensureSharedProvider e (oauth_id item))
                   (\<lambda>t. Inr (Some \<lparr>proxiedType = typedToUppercase t\<rparr>))
            else Inr None)
       (\<lambda>proxied.
          bindE (if oauth_type item = Standard
                 then bindE (ensureStandardProvider e (oauth_id item))
                   (\<lambda>t. bindE (orThrowErr (client_id item) ''client_id is required'')
                   (\<lambda>cid. bindE (orThrowErr (client_secret item) ''client_secret is required'')
                   (\<lambda>secret.
                      Inr (Some \<lparr>standardType = typedToUppercase t,
                                 clientId = cid,
                                 clientSecret = secret,
                                 facebookConfigId = facebook_config_id item,
                                 microsoftTenantId = microsoft_tenant_id item\<rparr>))))
                 else Inr None)
            (\<lambda>standard.
               Inr \<lparr>oauthProviderConfigId = oauth_id item,
                    proxiedOAuthConfig = proxied,
                    standardOAuthConfig = standard\<rparr>))"

definition emailServiceConfigCreate :: "emailConfigCrud option \<Rightarrow> error + emailServiceConfigDB" where
  "emailServiceConfigCreate email =
     (case email of
        Some ec \<Rightarrow>
          bindE (if email_type ec = Standard
                 then bindE (orThrowErr (email_host ec) ''host is required'')
                   (\<lambda>h. bindE (orThrowErr (email_port ec) ''port is required'')
                   (\<lambda>p. bindE (orThrowErr (email_username ec) ''username is required'')
                   (\<lambda>u. bindE (orThrowErr (email_password ec) ''password is required'')
                   (\<lambda>pw. bindE (orThrowErr (sender_email ec) ''sender_email is required'')
                   (\<lambda>se. bindE (orThrowErr (sender_name ec) ''sender_name is required'')
                   (\<lambda>sn.
                      Inr (Some \<lparr>host = h, port = p, username = u, password = pw,
                                 senderEmail = se, senderName = sn\<rparr>)))))))
                 else Inr None)
            (\<lambda>standard.
               Inr \<lparr>proxiedEmailServiceConfig = (if email_type ec = Shared then Some () else None),
                    standardEmailServiceConfig = standard\<rparr>)
      | None \<Rightarrow>
          Inr \<lparr>proxiedEmailServiceConfig = Some (), standardEmailServiceConfig = None\<rparr>)"

text \<open>
  The argument of \<^verbatim>\<open>tx.project.create\<close>, evaluated in the order of the object literal
  (provider entries before the email configuration), completed with the schema's
  defaults into the row the store returns (\<open>include: fullProjectInclude\<close>). A new
  project has no user.
\<close>

definition projectCreateData :: "env \<Rightarrow> fresh \<Rightarrow> projectCreate \<Rightarrow> error + projectDB" where
  "projectCreateData e gen data =
     bindE (case configField req_oauth_providers data of
              Some providers \<Rightarrow> mapE (oauthProviderConfigCreate e) providers
            | None \<Rightarrow> Inr [])
       (\<lambda>providerConfigs.
          bindE (emailServiceConfigCreate (configField req_email_config data))
            (\<lambda>email.
               Inr \<lparr>projectId = newProjectId gen,
                    displayName = req_display_name data,
                    description = req_description data,
                    createdAt = now gen,
                    isProductionMode = orDefault (req_is_production_mode data) False,
                    userCount = 0,
                    config =
                      \<lparr>configId = newConfigId gen,
                       allowLocalhost = orDefault (configField req_allow_localhost data) True,
                       signUpEnabled =
                         orDefault (configField req_sign_up_enabled data) (defaultSignUpEnabled e),
                       createTeamOnSignUp =
                         orDefault (configField req_create_team_on_sign_up data) False,
                       clientTeamCreationEnabled =
                         orDefault (configField req_client_team_creation_enabled data) False,
                       clientUserDeletionEnabled =
                         orDefault (configField req_client_user_deletion_enabled data) False,
                       legacyGlobalJwtSigning = defaultLegacyGlobalJwtSigning e,
                       teamCreateDefaultSystemPermissions = defaultTeamCreateSystemPermissions e,
                       teamMemberDefaultSystemPermissions = defaultTeamMemberSystemPermissions e,
                       oauthProviderConfigs = providerConfigs,
                       emailServiceConfig = Some email,
                       permissions = [],
                       authMethodConfigs = [],
                       connectedAccountConfigs = [],
                       domains =
                         (case configField req_domains data of
                            Some ds \<Rightarrow>
                              map (\<lambda>item. \<lparr>domainName = domain item,
                                           handlerPath = handler_path item\<rparr>) ds
                          | None \<Rightarrow> [])\<rparr>\<rparr>))"

subsection \<open>createProject: auth methods, connected accounts, permissions\<close>

text \<open>
  \<^verbatim>\<open>(data.config?.oauth_providers?.find(p => p.id === item.id)
      ?? throwErr("oauth provider not found")).enabled\<close>
\<close>

definition requestedEnabled :: "projectCreate \<Rightarrow> oauthProviderConfigDB \<Rightarrow> error + bool" where
  "requestedEnabled data item =
     bindE (orThrowErr
              (case configField req_oauth_providers data of
                 None \<Rightarrow> None
               | Some providers \<Rightarrow> find (\<lambda>p. oauth_id p = oauthProviderConfigId item) providers)
              ''oauth provider not found'')
       (\<lambda>p. Inr (oauth_enabled p))"

definition authMethodConfigCreates ::
  "projectCreate \<Rightarrow> projectDB \<Rightarrow> error + authMethodConfigCreate list" where
  "authMethodConfigCreates data project =
     bindE (case configField req_oauth_providers data of
              Some providers \<Rightarrow>
                mapE (\<lambda>item.
                        bindE (requestedEnabled data item)
                          (\<lambda>en. Inr \<lparr>create_enabled = en,
                                     create_oauthProviderConfig =
                                       Some (configId (config project), oauthProviderConfigId item),
                                     create_otpConfig = None,
                                     create_passwordConfig = None,
                                     create_passkeyConfig = None\<rparr>))
                  (oauthProviderConfigs (config project))
            | None \<Rightarrow> Inr [])
       (\<lambda>oauthCreates.
          Inr (oauthCreates @
               (if configField req_magic_link_enabled data = Some True
                then [\<lparr>create_enabled = True, create_oauthProviderConfig = None,
                       create_otpConfig = Some \<lparr>contactChannelType = ''EMAIL''\<rparr>,
                       create_passwordConfig = None, create_passkeyConfig = None\<rparr>]
                else []) @
               (if orDefault (configField req_credential_enabled data) True
                then [\<lparr>create_enabled = True, create_oauthProviderConfig = None,
                       create_otpConfig = None,
                       create_passwordConfig = Some (), create_passkeyConfig = None\<rparr>]
                else []) @
               (if configField req_passkey_enabled data = Some True
                then [\<lparr>create_enabled = True, create_oauthProviderConfig = None,
                       create_otpConfig = None,
                       create_passwordConfig = None, create_passkeyConfig = Some ()\<rparr>]
                else [])))"

definition connectedAccountConfigCreates ::
  "projectCreate \<Rightarrow> projectDB \<Rightarrow> error + connectedAccountConfigCreate list" where
  "connectedAccountConfigCreates data project =
     (case configField req_oauth_providers data of
        Some providers \<Rightarrow>
          mapE (\<lambda>item.
                  bindE (requestedEnabled data item)
                    (\<lambda>en. Inr \<lparr>connected_enabled = en,
                               connected_oauthProviderConfig =
                                 (configId (config project), oauthProviderConfigId item)\<rparr>))
            (oauthProviderConfigs (config project))
      | None \<Rightarrow> Inr [])"

definition systemPermissionEdge :: "string \<Rightarrow> permissionEdgeDB" where
  "systemPermissionEdge p = \<lparr>parentTeamSystemPermission = Some p, parentPermissionDbId = None\<rparr>"

text \<open>The two \<^verbatim>\<open>tx.permission.create\<close> rows; a flag the source does not set has the
  schema's default, false.\<close>

definition memberPermission :: "projectDB \<Rightarrow> permissionDB" where
  "memberPermission project =
     \<lparr>permissionProjectId = projectId project,
      permissionProjectConfigId = configId (config project),
      queryableId = ''member'',
      permissionDescription = ''Default permission for team members'',
      permissionScope = ''TEAM'',
      parentEdges = map systemPermissionEdge [''READ_MEMBERS'', ''INVITE_MEMBERS''],
      isDefaultTeamCreatorPermission = False,
      isDefaultTeamMemberPermission = True\<rparr>"

definition adminPermission :: "projectDB \<Rightarrow> permissionDB" where
  "adminPermission project =
     \<lparr>permissionProjectId = projectId project,
      permissionProjectConfigId = configId (config project),
      queryableId = ''admin'',
      permissionDescription = ''Default permission for team creators'',
      permissionScope = ''TEAM'',
      parentEdges =
        map systemPermissionEdge
          [''UPDATE_TEAM'', ''DELETE_TEAM'', ''READ_MEMBERS'', ''REMOVE_MEMBERS'', ''INVITE_MEMBERS''],
      isDefaultTeamCreatorPermission = True,
      isDefaultTeamMemberPermission = False\<rparr>"

subsection \<open>createProject: owner metadata\<close>

text \<open>Decimal index of an array element or a string's character, as a property name.\<close>

fun natToString :: "nat \<Rightarrow> string" where
  "natToString n =
     (if n < 10 then [''0123456789'' ! n]
      else natToString (n div 10) @ [''0123456789'' ! (n mod 10)])"

text \<open>
  \<^verbatim>\<open>{...v}\<close>: the own enumerable properties of \<open>v\<close>: the entries of an object, the
  indexed elements of an array, the indexed characters of a string, nothing otherwise.
\<close>

fun spreadObject :: "json \<Rightarrow> (string \<times> json) list" where
  "spreadObject (JObject kvs) = kvs"
| "spreadObject (JArray xs) = map (\<lambda>(i, x). (natToString i, x)) (enumerate 0 xs)"
| "spreadObject (JString s) = map (\<lambda>(i, c). (natToString i, JString [c])) (enumerate 0 s)"
| "spreadObject v = []"

text \<open>\<^verbatim>\<open>[...v]\<close>: the elements of an array, the characters of a string; anything else
  is not iterable.\<close>

fun spreadIterable :: "json \<Rightarrow> error + json list" where
  "spreadIterable (JArray xs) = Inr xs"
| "spreadIterable (JString s) = Inr (map (\<lambda>c. JString [c]) s)"
| "spreadIterable v = Inl (TypeError ''object is not iterable'')"

text \<open>
  The new \<open>serverMetadata\<close> of an owner:
  \<^verbatim>\<open>{ ...serverMetadataTx ?? {},
     managedProjectIds: [...serverMetadataTx?.managedProjectIds ?? [], project.id] }\<close>
  with \<^verbatim>\<open>serverMetadataTx = projectUserTx.serverMetadata ?? {}\<close>. A key that exists keeps
  its place in the object, a new key goes last.
\<close>

definition ownerServerMetadata :: "string \<Rightarrow> json \<Rightarrow> error + json" where
  "ownerServerMetadata pid meta =
     (let serverMetadataTx = nullish (Some meta) (JObject []) in
      bindE (spreadIterable (nullish (managedProjectIdsProp serverMetadataTx) (JArray [])))
        (\<lambda>ids.
           Inr (JObject
                  (AList.update ''managedProjectIds'' (JArray (ids @ [JString pid]))
                     (spreadObject serverMetadataTx)))))"

definition ownerNotFoundMessage :: "string \<Rightarrow> string" where
  "ownerNotFoundMessage userId =
     ''Attempted to create project, but owner user ID '' @ userId @
     '' not found. Did they delete their account? Continuing silently, but if the user is coming from an owner pack you should probably update it.''"

text \<open>One iteration of \<^verbatim>\<open>for (const userId of ownerIds)\<close>.\<close>

definition linkOwner :: "string \<Rightarrow> string \<Rightarrow> world \<Rightarrow> (error + unit) \<times> world" where
  "linkOwner pid userId w =
     (case projectUsers (db w) (''internal'', userId) of
        None \<Rightarrow>
          (Inr (),
           captureError ''project-creation-owner-not-found''
             (StackAssertionError (ownerNotFoundMessage userId)) w)
      | Some projectUserTx \<Rightarrow>
          (case ownerServerMetadata pid (serverMetadata projectUserTx) of
             Inl err \<Rightarrow> (Inl err, w)
           | Inr meta \<Rightarrow>
               (Inr (),
                w\<lparr>db := (db w)\<lparr>projectUsers :=
                      (projectUsers (db w))((''internal'', userId) \<mapsto>
                         projectUserTx\<lparr>serverMetadata := meta\<rparr>)\<rparr>\<rparr>)))"

fun linkOwners :: "string \<Rightarrow> string list \<Rightarrow> world \<Rightarrow> (error + unit) \<times> world" where
  "linkOwners pid [] w = (Inr (), w)"
| "linkOwners pid (userId # rest) w =
     (case linkOwner pid userId w of
        (Inl err, w') \<Rightarrow> (Inl err, w')
      | (Inr u, w') \<Rightarrow> linkOwners pid rest w')"

subsection \<open>createProject\<close>

definition projectNotFoundMessage :: "string \<Rightarrow> string" where
  "projectNotFoundMessage pid =
     ''Project with id '' @ [CHR 0x27] @ pid @ [CHR 0x27] @ '' not found after creation''"

text \<open>The writes of the transaction up to the owner loop.\<close>

definition provisionProject ::
  "env \<Rightarrow> fresh \<Rightarrow> projectCreate \<Rightarrow> database \<Rightarrow> error + projectDB \<times> database" where
  "provisionProject e gen data d =
     bindE (projectCreateData e gen data)
       (\<lambda>project. bindE (txProjectCreate project d)
       (\<lambda>d1. bindE (authMethodConfigCreates data project)
       (\<lambda>authCreates. bindE (txCreateAuthMethodConfigs gen (projectId project) authCreates d1)
       (\<lambda>d2. bindE (connectedAccountConfigCreates data project)
       (\<lambda>connectedCreates.
          bindE (txCreateConnectedAccountConfigs gen (projectId project) connectedCreates d2)
       (\<lambda>d3. bindE (txPermissionCreate (memberPermission project) d3)
       (\<lambda>d4. bindE (txPermissionCreate (adminPermission project) d4)
       (\<lambda>d5. Inr (project, d5)))))))))"

definition createProjectTx ::
  "env \<Rightarrow> fresh \<Rightarrow> string list \<Rightarrow> projectCreate \<Rightarrow> world \<Rightarrow> (error + projectDB) \<times> world" where
  "createProjectTx e gen ownerIds data w =
     (case provisionProject e gen data (db w) of
        Inl err \<Rightarrow> (Inl err, w)
      | Inr (project, d) \<Rightarrow>
          (case linkOwners (projectId project) ownerIds (w\<lparr>db := d\<rparr>) of
             (Inl err, w') \<Rightarrow> (Inl err, w')
           | (Inr u, w') \<Rightarrow>
               (case projects (db w') (projectId project) of
                  None \<Rightarrow>
                    (Inl (StackAssertionError (projectNotFoundMessage (projectId project))), w')
                | Some result \<Rightarrow> (Inr result, w'))))"

definition createProject ::
  "env \<Rightarrow> fresh \<Rightarrow> string list \<Rightarrow> projectCreate \<Rightarrow> world \<Rightarrow> (error + projectRead) \<times> world" where
  "createProject e gen ownerIds data w =
     (case transaction (createProjectTx e gen ownerIds data) w of
        (Inl err, w') \<Rightarrow> (Inl err, w')
      | (Inr result, w') \<Rightarrow> (projectPrismaToCrud e result, w'))"

subsection \<open>Example inputs\<close>

text \<open>
  A collation for the examples: the order of the code units. The provider allowlists,
  the public ids of permissions and the schema defaults of the example environment are
  sample values.
\<close>

definition codeUnitCompare :: "string \<Rightarrow> string \<Rightarrow> int" where
  "codeUnitCompare a b = (if a < b then - 1 else if a = b then 0 else 1)"

definition exampleEnv :: env where
  "exampleEnv =
     \<lparr>localeCompare = codeUnitCompare,
      permissionJsonId = queryableId,
      systemPermissionJsonId = (\<lambda>p. CHR ''$'' # typedToLowercase p),
      sharedProviders = [''google'', ''github'', ''facebook'', ''microsoft'', ''spotify''],
      standardProviders = [''google'', ''github'', ''facebook'', ''microsoft'', ''spotify''],
      defaultSignUpEnabled = True,
      defaultLegacyGlobalJwtSigning = False,
      defaultTeamCreateSystemPermissions = [],
      defaultTeamMemberSystemPermissions = []\<rparr>"

definition exampleFresh :: fresh where
  "exampleFresh =
     \<lparr>newProjectId = ''p1'', newConfigId = ''c1'',
      newAuthMethodConfigId = (\<lambda>i. ''am'' @ natToString i),
      newConnectedAccountConfigId = (\<lambda>i. ''ca'' @ natToString i),
      now = 1700000000000\<rparr>"

text \<open>One internal user, \<open>u1\<close>, who already manages project \<open>p0\<close>; no project yet.\<close>

definition exampleWorld :: world where
  "exampleWorld =
     \<lparr>db = \<lparr>projects = Map.empty,
            projectUsers =
              [(''internal'', ''u1'') \<mapsto>
                 \<lparr>serverMetadata =
                    JObject [(''plan'', JString ''free''),
                             (''managedProjectIds'', JArray [JString ''p0''])]\<rparr>]\<rparr>,
      capturedErrors = []\<rparr>"

definition googleShared :: oauthProviderCrud where
  "googleShared =
     \<lparr>oauth_id = ''google'', oauth_enabled = True, oauth_type = Shared,
      client_id = None, client_secret = None,
      facebook_config_id = None, microsoft_tenant_id = None\<rparr>"

definition githubStandard :: oauthProviderCrud where
  "githubStandard =
     \<lparr>oauth_id = ''github'', oauth_enabled = False, oauth_type = Standard,
      client_id = Some ''x'', client_secret = Some ''y'',
      facebook_config_id = None, microsoft_tenant_id = None\<rparr>"

definition exampleConfig :: "oauthProviderCrud list \<Rightarrow> configCreate" where
  "exampleConfig providers =
     \<lparr>req_sign_up_enabled = None, req_allow_localhost = None,
      req_create_team_on_sign_up = None, req_client_team_creation_enabled = None,
      req_client_user_deletion_enabled = None, req_domains = None,
      req_oauth_providers = Some providers,
      req_email_config = None, req_magic_link_enabled = None,
      req_credential_enabled = None, req_passkey_enabled = None\<rparr>"

text \<open>The request of the spec's example: Google shared and enabled, GitHub standard and
  disabled.\<close>

definition exampleRequest :: projectCreate where
  "exampleRequest =
     \<lparr>req_display_name = ''Acme'', req_description = None, req_is_production_mode = None,
      req_config = Some (exampleConfig [googleShared, githubStandard])\<rparr>"

text \<open>The same request with the GitHub entry lacking its \<open>client_secret\<close>.\<close>

definition incompleteRequest :: projectCreate where
  "incompleteRequest =
     \<lparr>req_display_name = ''Acme'', req_description = None, req_is_production_mode = None,
      req_config = Some (exampleConfig [googleShared, githubStandard\<lparr>client_secret := None\<rparr>])\<rparr>"

definition exampleView :: projectRead where
  "exampleView =
     \<lparr>read_id = ''p1'', display_name = ''Acme'', read_description = [],
      created_at_millis = 1700000000000, user_count = 0, is_production_mode = False,
      read_config =
        \<lparr>config_id = ''c1'', allow_localhost = True, sign_up_enabled = True,
         credential_enabled = True, magic_link_enabled = False, passkey_enabled = False,
         create_team_on_sign_up = False, client_team_creation_enabled = False,
         client_user_deletion_enabled = False, legacy_global_jwt_signing = False,
         read_domains = [],
         oauth_providers = [githubStandard, googleShared],
         enabled_oauth_providers = [googleShared],
         email_config =
           \<lparr>email_type = Shared, email_host = None, email_port = None,
            email_username = None, email_password = None,
            sender_email = None, sender_name = None\<rparr>,
         team_creator_default_permissions = [''admin''],
         team_member_default_permissions = [''member'']\<rparr>\<rparr>"

text \<open>
  Stored graphs for the reader: \<open>graphWith\<close> takes the provider configurations, the
  auth methods and the email configuration; the rest is fixed.
\<close>
definition graphWith ::
  "oauthProviderConfigDB list \<Rightarrow> authMethodConfigDB list \<Rightarrow> emailServiceConfigDB option \<Rightarrow> projectDB" where
  "graphWith providers authMethods email =
     \<lparr>projectId = ''p1'', displayName = ''Acme'', description = None, createdAt = 1700000000000,
      isProductionMode = False, userCount = 0,
      config =
        \<lparr>configId = ''c1'', allowLocalhost = True, signUpEnabled = True,
         createTeamOnSignUp = False, clientTeamCreationEnabled = False,
         clientUserDeletionEnabled = False, legacyGlobalJwtSigning = False,
         teamCreateDefaultSystemPermissions = [''UPDATE_TEAM''],
         teamMemberDefaultSystemPermissions = [''READ_MEMBERS''],
         oauthProviderConfigs = providers,
         emailServiceConfig = email,
         permissions =
           [\<lparr>permissionProjectId = ''p1'', permissionProjectConfigId = ''c1'',
             queryableId = ''member'', permissionDescription = ''Default permission for team members'',
             permissionScope = ''TEAM'',
             parentEdges = [systemPermissionEdge ''READ_MEMBERS''],
             isDefaultTeamCreatorPermission = False, isDefaultTeamMemberPermission = True\<rparr>,
            \<lparr>permissionProjectId = ''p1'', permissionProjectConfigId = ''c1'',
             queryableId = ''admin'', permissionDescription = ''Default permission for team creators'',
             permissionScope = ''TEAM'',
             parentEdges = [systemPermissionEdge ''UPDATE_TEAM''],
             isDefaultTeamCreatorPermission = True, isDefaultTeamMemberPermission = False\<rparr>],
         authMethodConfigs = authMethods,
         connectedAccountConfigs = [],
         domains =
           [\<lparr>domainName = ''https://b.example.com'', handlerPath = ''/handler''\<rparr>,
            \<lparr>domainName = ''https://a.example.com'', handlerPath = ''/handler''\<rparr>]\<rparr>\<rparr>"

definition googleProxied :: oauthProviderConfigDB where
  "googleProxied =
     \<lparr>oauthProviderConfigId = ''google'',
      proxiedOAuthConfig = Some \<lparr>proxiedType = ''GOOGLE''\<rparr>,
      standardOAuthConfig = None\<rparr>"

definition githubOwn :: oauthProviderConfigDB where
  "githubOwn =
     \<lparr>oauthProviderConfigId = ''github'',
      proxiedOAuthConfig = None,
      standardOAuthConfig =
        Some \<lparr>standardType = ''GITHUB'', clientId = ''x'', clientSecret = ''y'',
              facebookConfigId = None, microsoftTenantId = None\<rparr>\<rparr>"

definition oauthMethod :: "string \<Rightarrow> bool \<Rightarrow> oauthProviderConfigDB \<Rightarrow> authMethodConfigDB" where
  "oauthMethod rowId en pc =
     \<lparr>authMethodConfigId = rowId, authMethodEnabled = en,
      authMethodOAuthProviderConfig = Some pc,
      otpConfig = None, passwordConfig = None, passkeyConfig = None\<rparr>"

definition passwordMethod :: "string \<Rightarrow> authMethodConfigDB" where
  "passwordMethod rowId =
     \<lparr>authMethodConfigId = rowId, authMethodEnabled = True,
      authMethodOAuthProviderConfig = None,
      otpConfig = None, passwordConfig = Some (), passkeyConfig = None\<rparr>"

definition sharedEmail :: emailServiceConfigDB where
  "sharedEmail = \<lparr>proxiedEmailServiceConfig = Some (), standardEmailServiceConfig = None\<rparr>"

definition exampleGraph :: projectDB where
  "exampleGraph =
     graphWith [googleProxied, githubOwn]
       [oauthMethod ''a1'' True googleProxied, oauthMethod ''a2'' False githubOwn,
        passwordMethod ''a3'']
       (Some sharedEmail)"

text \<open>A provider configuration with neither variant, and one with both.\<close>

definition emptyProvider :: oauthProviderConfigDB where
  "emptyProvider =
     \<lparr>oauthProviderConfigId = ''spotify'', proxiedOAuthConfig = None, standardOAuthConfig = None\<rparr>"

definition doubleProvider :: oauthProviderConfigDB where
  "doubleProvider = githubOwn\<lparr>proxiedOAuthConfig := Some \<lparr>proxiedType = ''GITHUB''\<rparr>\<rparr>"

section \<open>Theorems\<close>

subsection \<open>Results and lists\<close>

lemma bindE_simps [simp]:
  "bindE (Inl e) f = Inl e"
  "bindE (Inr x) f = f x"
  by (simp_all add: bindE_def)

lemma bindE_eq_Inr:
  "bindE m f = Inr y \<longleftrightarrow> (\<exists>x. m = Inr x \<and> f x = Inr y)"
  by (cases m) simp_all

lemma mapE_eq_Inr:
  "mapE f xs = Inr ys \<longleftrightarrow> list_all2 (\<lambda>x y. f x = Inr y) xs ys"
proof (induction xs arbitrary: ys)
  case Nil
  then show ?case by auto
next
  case (Cons x xs)
  then show ?case
    by (cases ys) (auto simp: bindE_eq_Inr)
qed

lemma mapE_Inl_source:
  "mapE f xs = Inl e \<Longrightarrow> \<exists>x \<in> set xs. f x = Inl e"
proof (induction xs)
  case Nil
  then show ?case by simp
next
  case (Cons x xs)
  then show ?case
    by (cases "f x"; cases "mapE f xs") auto
qed

lemma mapE_fails:
  "x \<in> set xs \<Longrightarrow> f x = Inl e \<Longrightarrow> \<exists>e'. mapE f xs = Inl e'"
proof (induction xs)
  case Nil
  then show ?case by simp
next
  case (Cons y ys)
  then show ?case
    by (cases "f y"; cases "mapE f ys") auto
qed

lemma list_all2_map_eq:
  "list_all2 (\<lambda>x y. g y = h x) xs ys \<Longrightarrow> map g ys = map h xs"
  by (induction xs ys rule: list_all2_induct) auto

lemma list_all2_enumerate_map_eq:
  "list_all2 (\<lambda>ix y. g y = h (snd ix)) (enumerate n xs) ys \<Longrightarrow> map g ys = map h xs"
proof (induction xs arbitrary: n ys)
  case Nil
  then show ?case by simp
next
  case (Cons x xs)
  then show ?case by (cases ys) auto
qed

lemma find_distinct_key:
  "distinct (map k ps) \<Longrightarrow> p \<in> set ps \<Longrightarrow> find (\<lambda>q. k q = k p) ps = Some p"
proof (induction ps)
  case Nil
  then show ?case by simp
next
  case (Cons a ps)
  then show ?case by (auto simp: image_iff)
qed

lemma oauthProviderConfigCreate_id:
  "oauthProviderConfigCreate e item = Inr pc \<Longrightarrow> oauthProviderConfigId pc = oauth_id item"
  by (auto simp: oauthProviderConfigCreate_def bindE_eq_Inr split: if_splits)

lemma oauthProviderConfigCreate_variant:
  "oauthProviderConfigCreate e item = Inr pc \<Longrightarrow>
     (oauth_type item = Shared \<longrightarrow> proxiedOAuthConfig pc \<noteq> None \<and> standardOAuthConfig pc = None) \<and>
     (oauth_type item = Standard \<longrightarrow> proxiedOAuthConfig pc = None \<and> standardOAuthConfig pc \<noteq> None)"
  by (auto simp: oauthProviderConfigCreate_def bindE_eq_Inr split: if_splits)

lemma oauthProviderConfigCreate_error:
  "oauthProviderConfigCreate e item = Inl err \<Longrightarrow> category err = ValidationError"
  by (auto simp: oauthProviderConfigCreate_def bindE_def ensureSharedProvider_def
      ensureStandardProvider_def orThrowErr_def split: if_splits sum.splits option.splits)

lemma oauthProviderConfigCreate_missing_credentials:
  "oauth_type item = Standard \<Longrightarrow> client_id item = None \<or> client_secret item = None \<Longrightarrow>
     \<exists>err. oauthProviderConfigCreate e item = Inl err"
  by (auto simp: oauthProviderConfigCreate_def bindE_def ensureSharedProvider_def
      ensureStandardProvider_def orThrowErr_def split: if_splits sum.splits option.splits)

lemma connectOAuthProviderConfig_Inr:
  "connectOAuthProviderConfig c key = Inr pc \<Longrightarrow>
     pc \<in> set (oauthProviderConfigs c) \<and> oauthProviderConfigId pc = snd key \<and> configId c = fst key"
  by (auto simp: connectOAuthProviderConfig_def find_Some_iff split: option.splits)

lemma authMethodConfigRow_content:
  "authMethodConfigRow gen c ix = Inr r \<Longrightarrow>
     authMethodEnabled r = create_enabled (snd ix) \<and>
     map_option oauthProviderConfigId (authMethodOAuthProviderConfig r) =
       map_option snd (create_oauthProviderConfig (snd ix)) \<and>
     otpConfig r = create_otpConfig (snd ix) \<and>
     passwordConfig r = create_passwordConfig (snd ix) \<and>
     passkeyConfig r = create_passkeyConfig (snd ix)"
  by (auto simp: authMethodConfigRow_def bindE_eq_Inr split: option.splits
      dest: connectOAuthProviderConfig_Inr)

lemma connectedAccountConfigRow_content:
  "connectedAccountConfigRow gen c ix = Inr r \<Longrightarrow>
     connectedAccountEnabled r = connected_enabled (snd ix) \<and>
     map_option oauthProviderConfigId (connectedAccountOAuthProviderConfig r) =
       Some (snd (connected_oauthProviderConfig (snd ix)))"
  by (auto simp: connectedAccountConfigRow_def bindE_eq_Inr
      dest: connectOAuthProviderConfig_Inr)

lemma provisionProject_Inr:
  assumes "provisionProject e gen data d = Inr (project, d')"
  shows "\<exists>authCreates authRows connectedCreates connectedRows.
           projectCreateData e gen data = Inr project \<and>
           projects d (projectId project) = None \<and>
           distinct (map oauthProviderConfigId (oauthProviderConfigs (config project))) \<and>
           distinct (map domainName (domains (config project))) \<and>
           authMethodConfigCreates data project = Inr authCreates \<and>
           mapE (authMethodConfigRow gen (config project)) (enumerate 0 authCreates) = Inr authRows \<and>
           connectedAccountConfigCreates data project = Inr connectedCreates \<and>
           mapE (connectedAccountConfigRow gen
                   ((config project)\<lparr>authMethodConfigs := authMethodConfigs (config project) @ authRows\<rparr>))
             (enumerate 0 connectedCreates) = Inr connectedRows \<and>
           d' = d\<lparr>projects := (projects d)(projectId project \<mapsto>
                  project\<lparr>config := (config project)
                    \<lparr>authMethodConfigs := authMethodConfigs (config project) @ authRows,
                     connectedAccountConfigs := connectedAccountConfigs (config project) @ connectedRows,
                     permissions := permissions (config project) @
                        [memberPermission project, adminPermission project]\<rparr>\<rparr>)\<rparr>"
  using assms
  by (auto simp: provisionProject_def bindE_eq_Inr txProjectCreate_def
      txCreateAuthMethodConfigs_def txCreateConnectedAccountConfigs_def txPermissionCreate_def
      txProjectConfigUpdate_def memberPermission_def adminPermission_def
      split: if_splits option.splits)

lemma linkOwner_projects:
  "linkOwner pid u w = (r, w') \<Longrightarrow> projects (db w') = projects (db w)"
  by (auto simp: linkOwner_def captureError_def split: option.splits sum.splits)

lemma linkOwners_projects:
  "linkOwners pid us w = (r, w') \<Longrightarrow> projects (db w') = projects (db w)"
proof (induction us arbitrary: w)
  case Nil
  then show ?case by simp
next
  case (Cons u us)
  obtain r1 w1 where step: "linkOwner pid u w = (r1, w1)" by (cases "linkOwner pid u w")
  show ?case
  proof (cases r1)
    case (Inl err)
    with Cons.prems step show ?thesis by (auto dest: linkOwner_projects)
  next
    case (Inr x)
    with Cons.prems step have "linkOwners pid us w1 = (r, w')" by simp
    then have "projects (db w') = projects (db w1)" by (rule Cons.IH)
    with step show ?thesis by (auto dest: linkOwner_projects)
  qed
qed

lemma projectCreateData_projectId:
  "projectCreateData e gen data = Inr project \<Longrightarrow> projectId project = newProjectId gen"
  by (auto simp: projectCreateData_def bindE_eq_Inr)

lemma createProject_Inr:
  assumes "createProject e gen ownerIds data w = (Inr view, w')"
  shows "\<exists>project d g.
           provisionProject e gen data (db w) = Inr (project, d) \<and>
           projectId project = newProjectId gen \<and>
           linkOwners (projectId project) ownerIds (w\<lparr>db := d\<rparr>) = (Inr (), w') \<and>
           projects (db w') = projects d \<and>
           projects d (newProjectId gen) = Some g \<and>
           projectPrismaToCrud e g = Inr view"
proof -
  from assms obtain g where tx: "createProjectTx e gen ownerIds data w = (Inr g, w')"
    and view: "projectPrismaToCrud e g = Inr view"
    by (auto simp: createProject_def transaction_def split: prod.splits sum.splits)
  from tx obtain project d where prov: "provisionProject e gen data (db w) = Inr (project, d)"
    and link: "linkOwners (projectId project) ownerIds (w\<lparr>db := d\<rparr>) = (Inr (), w')"
    and g: "projects (db w') (projectId project) = Some g"
    by (auto simp: createProjectTx_def split: prod.splits sum.splits option.splits)
  from link have same: "projects (db w') = projects d"
    by (auto dest: linkOwners_projects)
  from prov have pid: "projectId project = newProjectId gen"
    by (auto dest!: provisionProject_Inr projectCreateData_projectId)
  from prov link same g pid view show ?thesis by auto
qed

lemma createProject_graph:
  assumes "createProject e gen ownerIds data w = (Inr view, w')"
  obtains project authCreates authRows connectedCreates connectedRows where
    "projectCreateData e gen data = Inr project"
    "projectId project = newProjectId gen"
    "distinct (map oauthProviderConfigId (oauthProviderConfigs (config project)))"
    "authMethodConfigCreates data project = Inr authCreates"
    "list_all2 (\<lambda>ix r. authMethodConfigRow gen (config project) ix = Inr r)
       (enumerate 0 authCreates) authRows"
    "connectedAccountConfigCreates data project = Inr connectedCreates"
    "list_all2 (\<lambda>ix r. connectedAccountConfigRow gen
             ((config project)\<lparr>authMethodConfigs := authMethodConfigs (config project) @ authRows\<rparr>) ix = Inr r)
       (enumerate 0 connectedCreates) connectedRows"
    "projects (db w') (newProjectId gen) =
       Some (project\<lparr>config := (config project)
              \<lparr>authMethodConfigs := authMethodConfigs (config project) @ authRows,
               connectedAccountConfigs := connectedAccountConfigs (config project) @ connectedRows,
               permissions := permissions (config project) @
                  [memberPermission project, adminPermission project]\<rparr>\<rparr>)"
    "projectPrismaToCrud e
       (project\<lparr>config := (config project)
              \<lparr>authMethodConfigs := authMethodConfigs (config project) @ authRows,
               connectedAccountConfigs := connectedAccountConfigs (config project) @ connectedRows,
               permissions := permissions (config project) @
                  [memberPermission project, adminPermission project]\<rparr>\<rparr>) = Inr view"
proof -
  from createProject_Inr [OF assms] obtain project d g where
    prov: "provisionProject e gen data (db w) = Inr (project, d)"
    and pid: "projectId project = newProjectId gen"
    and same: "projects (db w') = projects d"
    and g: "projects d (newProjectId gen) = Some g"
    and view: "projectPrismaToCrud e g = Inr view"
    by blast
  from provisionProject_Inr [OF prov] obtain ac ar cc cr where
    facts: "projectCreateData e gen data = Inr project"
      "distinct (map oauthProviderConfigId (oauthProviderConfigs (config project)))"
      "authMethodConfigCreates data project = Inr ac"
      "mapE (authMethodConfigRow gen (config project)) (enumerate 0 ac) = Inr ar"
      "connectedAccountConfigCreates data project = Inr cc"
      "mapE (connectedAccountConfigRow gen
                   ((config project)\<lparr>authMethodConfigs := authMethodConfigs (config project) @ ar\<rparr>))
             (enumerate 0 cc) = Inr cr"
    and d: "d = (db w)\<lparr>projects := (projects (db w))(projectId project \<mapsto>
                  project\<lparr>config := (config project)
                    \<lparr>authMethodConfigs := authMethodConfigs (config project) @ ar,
                     connectedAccountConfigs := connectedAccountConfigs (config project) @ cr,
                     permissions := permissions (config project) @
                        [memberPermission project, adminPermission project]\<rparr>\<rparr>)\<rparr>"
    by (elim exE conjE) (rule that; assumption)
  from d g pid have g': "g = project\<lparr>config := (config project)
                    \<lparr>authMethodConfigs := authMethodConfigs (config project) @ ar,
                     connectedAccountConfigs := connectedAccountConfigs (config project) @ cr,
                     permissions := permissions (config project) @
                        [memberPermission project, adminPermission project]\<rparr>\<rparr>"
    by simp
  have stored: "projects (db w') (newProjectId gen) = Some g"
    using same g by simp
  show ?thesis
  proof (rule that [of project ac ar cc cr])
    show "projectCreateData e gen data = Inr project" by (rule facts)
    show "projectId project = newProjectId gen" by (rule pid)
    show "distinct (map oauthProviderConfigId (oauthProviderConfigs (config project)))"
      by (rule facts)
    show "authMethodConfigCreates data project = Inr ac" by (rule facts)
    show "list_all2 (\<lambda>ix r. authMethodConfigRow gen (config project) ix = Inr r)
       (enumerate 0 ac) ar"
      using facts(4) by (simp add: mapE_eq_Inr)
    show "connectedAccountConfigCreates data project = Inr cc" by (rule facts)
    show "list_all2 (\<lambda>ix r. connectedAccountConfigRow gen
             ((config project)\<lparr>authMethodConfigs := authMethodConfigs (config project) @ ar\<rparr>) ix = Inr r)
       (enumerate 0 cc) cr"
      using facts(6) by (simp add: mapE_eq_Inr)
    show "projects (db w') (newProjectId gen) =
       Some (project\<lparr>config := (config project)
              \<lparr>authMethodConfigs := authMethodConfigs (config project) @ ar,
               connectedAccountConfigs := connectedAccountConfigs (config project) @ cr,
               permissions := permissions (config project) @
                  [memberPermission project, adminPermission project]\<rparr>\<rparr>)"
      using stored g' by simp
    show "projectPrismaToCrud e
       (project\<lparr>config := (config project)
              \<lparr>authMethodConfigs := authMethodConfigs (config project) @ ar,
               connectedAccountConfigs := connectedAccountConfigs (config project) @ cr,
               permissions := permissions (config project) @
                  [memberPermission project, adminPermission project]\<rparr>\<rparr>) = Inr view"
      using view g' by simp
  qed
qed

lemma projectCreateData_Inr:
  assumes "projectCreateData e gen data = Inr project"
  obtains email where
    "list_all2 (\<lambda>item pc. oauthProviderConfigCreate e item = Inr pc)
       (orDefault (configField req_oauth_providers data) []) (oauthProviderConfigs (config project))"
    "emailServiceConfigCreate (configField req_email_config data) = Inr email"
    "emailServiceConfig (config project) = Some email"
    "permissions (config project) = []"
    "authMethodConfigs (config project) = []"
    "connectedAccountConfigs (config project) = []"
    "configId (config project) = newConfigId gen"
proof -
  from assms obtain providerConfigs email where
    pcs: "(case configField req_oauth_providers data of
              Some providers \<Rightarrow> mapE (oauthProviderConfigCreate e) providers
            | None \<Rightarrow> Inr []) = Inr providerConfigs"
    and em: "emailServiceConfigCreate (configField req_email_config data) = Inr email"
    and cfg: "oauthProviderConfigs (config project) = providerConfigs"
      "emailServiceConfig (config project) = Some email"
      "permissions (config project) = []"
      "authMethodConfigs (config project) = []"
      "connectedAccountConfigs (config project) = []"
      "configId (config project) = newConfigId gen"
    unfolding projectCreateData_def bindE_eq_Inr by force
  from pcs cfg(1) have l: "list_all2 (\<lambda>item pc. oauthProviderConfigCreate e item = Inr pc)
       (orDefault (configField req_oauth_providers data) []) (oauthProviderConfigs (config project))"
    by (cases "configField req_oauth_providers data") (auto simp: orDefault_def mapE_eq_Inr)
  show ?thesis
    by (rule that [of email]) (use l em cfg in simp_all)
qed

subsection \<open>The example, evaluated\<close>

lemmas model_defs =
  createProject_def transaction_def createProjectTx_def provisionProject_def
  projectCreateData_def oauthProviderConfigCreate_def emailServiceConfigCreate_def
  ensureSharedProvider_def ensureStandardProvider_def orThrowErr_def orDefault_def configField_def
  txProjectCreate_def txProjectConfigUpdate_def txCreateAuthMethodConfigs_def
  txCreateConnectedAccountConfigs_def txPermissionCreate_def connectOAuthProviderConfig_def
  authMethodConfigRow_def connectedAccountConfigRow_def authMethodConfigCreates_def
  connectedAccountConfigCreates_def requestedEnabled_def memberPermission_def adminPermission_def
  systemPermissionEdge_def linkOwner_def ownerServerMetadata_def captureError_def
  ownerNotFoundMessage_def projectPrismaToCrud_def oauthProviderOfAuthMethod_def
  emailConfigOfProject_def defaultPermissionIds_def typedToLowercase_def typedToUppercase_def
  toLowerChar_def toUpperChar_def AList.update_def enumerate_eq_zip Let_def

lemmas example_defs =
  exampleEnv_def exampleFresh_def exampleWorld_def exampleRequest_def exampleConfig_def
  googleShared_def githubStandard_def codeUnitCompare_def exampleView_def

lemma example_run:
  "createProject exampleEnv exampleFresh [''u1'', ''ghost''] exampleRequest exampleWorld =
     (Inr exampleView,
      snd (createProject exampleEnv exampleFresh [''u1'', ''ghost''] exampleRequest exampleWorld))"
proof -
  have "fst (createProject exampleEnv exampleFresh [''u1'', ''ghost''] exampleRequest exampleWorld) =
      Inr exampleView"
    by (simp add: model_defs example_defs)
  then show ?thesis by (simp add: prod_eq_iff)
qed

subsection \<open>Reading\<close>

lemmas graph_defs = graphWith_def googleProxied_def githubOwn_def oauthMethod_def
  passwordMethod_def sharedEmail_def

lemma oauthProviderOfAuthMethod_Inl:
  "oauthProviderOfAuthMethod pid cfg = Inl err \<longleftrightarrow>
     (\<exists>pc. authMethodOAuthProviderConfig cfg = Some pc \<and>
           proxiedOAuthConfig pc = None \<and> standardOAuthConfig pc = None) \<and>
     err = StackAssertionError (providerConfigsMessage (authMethodConfigId cfg) pid)"
  by (auto simp: oauthProviderOfAuthMethod_def split: option.splits)

lemma emailConfigOfProject_neither:
  "emailServiceConfig (config prisma) = Some esc \<Longrightarrow>
   proxiedEmailServiceConfig esc = None \<Longrightarrow> standardEmailServiceConfig esc = None \<Longrightarrow>
   emailConfigOfProject prisma = Inl (StackAssertionError (emailConfigsMessage (projectId prisma)))"
  by (simp add: emailConfigOfProject_def)

lemma projectPrismaToCrud_oauth_Inl:
  "mapE (oauthProviderOfAuthMethod (projectId prisma)) (authMethodConfigs (config prisma)) = Inl err \<Longrightarrow>
   projectPrismaToCrud e prisma = Inl err"
  by (simp add: projectPrismaToCrud_def)

lemma projectPrismaToCrud_email_Inl:
  "mapE (oauthProviderOfAuthMethod (projectId prisma)) (authMethodConfigs (config prisma)) = Inr mapped \<Longrightarrow>
   emailConfigOfProject prisma = Inl err \<Longrightarrow>
   projectPrismaToCrud e prisma = Inl err"
  by (simp add: projectPrismaToCrud_def Let_def)

lemma set_insertSorted: "set (insertSorted cmp x xs) = insert x (set xs)"
  by (induction xs) auto

lemma sorted_insertSorted:
  assumes total: "\<And>a b. cmp a b \<le> 0 \<or> cmp b a \<le> 0"
    and trans: "\<And>a b c. cmp a b \<le> 0 \<Longrightarrow> cmp b c \<le> 0 \<Longrightarrow> cmp a c \<le> 0"
  shows "sorted_wrt (\<lambda>a b. cmp a b \<le> 0) xs \<Longrightarrow>
         sorted_wrt (\<lambda>a b. cmp a b \<le> 0) (insertSorted cmp x xs)"
proof (induction xs)
  case Nil
  then show ?case by simp
next
  case (Cons y ys)
  show ?case
  proof (cases "cmp x y \<le> 0")
    case True
    with Cons.prems show ?thesis using trans by auto
  next
    case False
    then have "cmp y x \<le> 0" using total by blast
    with False Cons show ?thesis by (auto simp: set_insertSorted)
  qed
qed

lemma sorted_arraySort:
  assumes total: "\<And>a b. cmp a b \<le> 0 \<or> cmp b a \<le> 0"
    and trans: "\<And>a b c. cmp a b \<le> 0 \<Longrightarrow> cmp b c \<le> 0 \<Longrightarrow> cmp a c \<le> 0"
  shows "sorted_wrt (\<lambda>a b. cmp a b \<le> 0) (arraySort cmp xs)"
  by (induction xs) (simp_all add: sorted_insertSorted [OF total trans])

lemma sorted_arraySort_key:
  assumes total: "\<forall>a b. cmp a b \<le> (0::int) \<or> cmp b a \<le> 0"
    and trans: "\<forall>a b c. cmp a b \<le> 0 \<and> cmp b c \<le> 0 \<longrightarrow> cmp a c \<le> 0"
  shows "sorted_wrt (\<lambda>a b. cmp (key a) (key b) \<le> 0)
           (arraySort (\<lambda>a b. cmp (key a) (key b)) xs)"
proof (rule sorted_arraySort)
  show "cmp (key a) (key b) \<le> 0 \<or> cmp (key b) (key a) \<le> 0" for a b
    using total by blast
  show "cmp (key a) (key b) \<le> 0 \<Longrightarrow> cmp (key b) (key c) \<le> 0 \<Longrightarrow>
        cmp (key a) (key c) \<le> 0" for a b c
    using trans by blast
qed

lemma projectPrismaToCrud_lists:
  assumes "projectPrismaToCrud e prisma = Inr v"
  obtains mapped where
    "oauth_providers (read_config v) =
       arraySort (\<lambda>a b. localeCompare e (oauth_id a) (oauth_id b))
         (concat (map (\<lambda>provider. case provider of None \<Rightarrow> [] | Some p \<Rightarrow> [p]) mapped))"
    "enabled_oauth_providers (read_config v) = filter oauth_enabled (oauth_providers (read_config v))"
    "read_domains (read_config v) =
       arraySort (\<lambda>a b. localeCompare e (domain a) (domain b))
         (map (\<lambda>d. \<lparr>domain = domainName d, handler_path = handlerPath d\<rparr>)
            (domains (config prisma)))"
    "team_creator_default_permissions (read_config v) =
       defaultPermissionIds e isDefaultTeamCreatorPermission
         (teamCreateDefaultSystemPermissions (config prisma)) (permissions (config prisma))"
    "team_member_default_permissions (read_config v) =
       defaultPermissionIds e isDefaultTeamMemberPermission
         (teamMemberDefaultSystemPermissions (config prisma)) (permissions (config prisma))"
  using assms unfolding projectPrismaToCrud_def bindE_eq_Inr Let_def by force

lemma codeUnitCompare_total: "\<forall>a b. codeUnitCompare a b \<le> 0 \<or> codeUnitCompare b a \<le> 0"
  by (auto simp: codeUnitCompare_def)

lemma codeUnitCompare_trans:
  "\<forall>a b c. codeUnitCompare a b \<le> 0 \<and> codeUnitCompare b c \<le> 0 \<longrightarrow> codeUnitCompare a c \<le> 0"
  by (auto simp: codeUnitCompare_def split: if_splits)

text \<open>
  C1 (as amended). When an OAuth provider configuration that an auth method of the graph
  refers to, or the email service configuration of the graph, has neither variant
  populated, \<open>projectPrismaToCrud\<close> fails with a \<open>StackAssertionError\<close> whose message
  names the auth method and the project (for the email configuration: the project).
  Provider configurations reached only through \<open>config.oauthProviderConfigs\<close> or the
  connected accounts are not inspected.
\<close>

theorem projectPrismaToCrud_neither_variant:
  assumes "(\<exists>cfg \<in> set (authMethodConfigs (config prisma)). \<exists>pc.
              authMethodOAuthProviderConfig cfg = Some pc \<and>
              proxiedOAuthConfig pc = None \<and> standardOAuthConfig pc = None) \<or>
           (\<exists>esc. emailServiceConfig (config prisma) = Some esc \<and>
              proxiedEmailServiceConfig esc = None \<and> standardEmailServiceConfig esc = None)"
  shows "(\<exists>cfg \<in> set (authMethodConfigs (config prisma)).
            (\<exists>pc. authMethodOAuthProviderConfig cfg = Some pc \<and>
               proxiedOAuthConfig pc = None \<and> standardOAuthConfig pc = None) \<and>
            projectPrismaToCrud e prisma =
              Inl (StackAssertionError
                     (providerConfigsMessage (authMethodConfigId cfg) (projectId prisma)))) \<or>
         projectPrismaToCrud e prisma =
           Inl (StackAssertionError (emailConfigsMessage (projectId prisma)))"
proof (cases "mapE (oauthProviderOfAuthMethod (projectId prisma)) (authMethodConfigs (config prisma))")
  case (Inl err)
  from mapE_Inl_source [where f = "oauthProviderOfAuthMethod (projectId prisma)", OF Inl]
  obtain cfg where cfg: "cfg \<in> set (authMethodConfigs (config prisma))"
    and bad: "oauthProviderOfAuthMethod (projectId prisma) cfg = Inl err"
    by (elim bexE) (rule that)
  from bad have "(\<exists>pc. authMethodOAuthProviderConfig cfg = Some pc \<and>
           proxiedOAuthConfig pc = None \<and> standardOAuthConfig pc = None)"
    and "err = StackAssertionError (providerConfigsMessage (authMethodConfigId cfg) (projectId prisma))"
    by (simp_all add: oauthProviderOfAuthMethod_Inl)
  with cfg projectPrismaToCrud_oauth_Inl [OF Inl, of e] show ?thesis by blast
next
  case (Inr mapped)
  have no_bad: "\<not> (\<exists>cfg \<in> set (authMethodConfigs (config prisma)). \<exists>pc.
              authMethodOAuthProviderConfig cfg = Some pc \<and>
              proxiedOAuthConfig pc = None \<and> standardOAuthConfig pc = None)"
  proof
    assume "\<exists>cfg \<in> set (authMethodConfigs (config prisma)). \<exists>pc.
              authMethodOAuthProviderConfig cfg = Some pc \<and>
              proxiedOAuthConfig pc = None \<and> standardOAuthConfig pc = None"
    then obtain cfg where cfg: "cfg \<in> set (authMethodConfigs (config prisma))"
      and "oauthProviderOfAuthMethod (projectId prisma) cfg =
             Inl (StackAssertionError (providerConfigsMessage (authMethodConfigId cfg) (projectId prisma)))"
      by (auto simp: oauthProviderOfAuthMethod_Inl)
    from mapE_fails [where f = "oauthProviderOfAuthMethod (projectId prisma)", OF this] Inr
    show False by simp
  qed
  with assms obtain esc where "emailServiceConfig (config prisma) = Some esc"
    "proxiedEmailServiceConfig esc = None" "standardEmailServiceConfig esc = None"
    by blast
  then have "emailConfigOfProject prisma =
      Inl (StackAssertionError (emailConfigsMessage (projectId prisma)))"
    by (rule emailConfigOfProject_neither)
  from projectPrismaToCrud_email_Inl [OF Inr this] show ?thesis by simp
qed

theorem projectPrismaToCrud_neither_variant_witness:
  "projectPrismaToCrud exampleEnv
     (graphWith [emptyProvider] [passwordMethod ''a1'', oauthMethod ''a2'' True emptyProvider]
        (Some sharedEmail)) =
     Inl (StackAssertionError (providerConfigsMessage ''a2'' ''p1'')) \<and>
   projectPrismaToCrud exampleEnv
     (graphWith [] [passwordMethod ''a1'']
        (Some \<lparr>proxiedEmailServiceConfig = None, standardEmailServiceConfig = None\<rparr>)) =
     Inl (StackAssertionError (emailConfigsMessage ''p1''))"
proof -
  have a: "projectPrismaToCrud exampleEnv
     (graphWith [emptyProvider] [passwordMethod ''a1'', oauthMethod ''a2'' True emptyProvider]
        (Some sharedEmail)) =
     Inl (StackAssertionError (providerConfigsMessage ''a2'' ''p1''))"
    using projectPrismaToCrud_neither_variant
      [of "graphWith [emptyProvider] [passwordMethod ''a1'', oauthMethod ''a2'' True emptyProvider]
        (Some sharedEmail)" exampleEnv]
    by (simp add: graph_defs emptyProvider_def systemPermissionEdge_def model_defs example_defs)
  have b: "projectPrismaToCrud exampleEnv
     (graphWith [] [passwordMethod ''a1'']
        (Some \<lparr>proxiedEmailServiceConfig = None, standardEmailServiceConfig = None\<rparr>)) =
     Inl (StackAssertionError (emailConfigsMessage ''p1''))"
    using projectPrismaToCrud_neither_variant
      [of "graphWith [] [passwordMethod ''a1'']
        (Some \<lparr>proxiedEmailServiceConfig = None, standardEmailServiceConfig = None\<rparr>)" exampleEnv]
    by (simp add: graph_defs model_defs example_defs)
  from a b show ?thesis by simp
qed

text \<open>
  C1 as stated fails: a provider configuration with neither variant that no auth method
  refers to is read without an error, and one with both variants populated is read as
  \<open>shared\<close>.
\<close>

theorem projectPrismaToCrud_variant_counterexample:
  "emptyProvider \<in> set (oauthProviderConfigs (config
      (graphWith [googleProxied, emptyProvider] [oauthMethod ''a1'' True googleProxied]
         (Some sharedEmail)))) \<and>
   proxiedOAuthConfig emptyProvider = None \<and> standardOAuthConfig emptyProvider = None \<and>
   map oauth_id (oauth_providers (read_config (projr (projectPrismaToCrud exampleEnv
      (graphWith [googleProxied, emptyProvider] [oauthMethod ''a1'' True googleProxied]
         (Some sharedEmail)))))) = [''google''] \<and>
   \<not> isl (projectPrismaToCrud exampleEnv
      (graphWith [googleProxied, emptyProvider] [oauthMethod ''a1'' True googleProxied]
         (Some sharedEmail))) \<and>
   proxiedOAuthConfig doubleProvider \<noteq> None \<and> standardOAuthConfig doubleProvider \<noteq> None \<and>
   \<not> isl (projectPrismaToCrud exampleEnv
      (graphWith [doubleProvider] [oauthMethod ''a1'' True doubleProvider] (Some sharedEmail))) \<and>
   map oauth_type (oauth_providers (read_config (projr (projectPrismaToCrud exampleEnv
      (graphWith [doubleProvider] [oauthMethod ''a1'' True doubleProvider] (Some sharedEmail)))))) =
     [Shared]"
  by (simp add: graph_defs emptyProvider_def doubleProvider_def model_defs example_defs)

text \<open>
  C3. For a collation that is a total preorder, every view \<open>projectPrismaToCrud\<close>
  returns has \<open>oauth_providers\<close> sorted ascending by id, \<open>domains\<close> by domain, both
  default permission lists by id, and \<open>enabled_oauth_providers\<close> is the sorted
  \<open>oauth_providers\<close> filtered by \<open>enabled\<close>, in the same order.
\<close>

theorem projectPrismaToCrud_sorted:
  assumes total: "\<forall>a b. localeCompare e a b \<le> 0 \<or> localeCompare e b a \<le> 0"
    and trans: "\<forall>a b c. localeCompare e a b \<le> 0 \<and> localeCompare e b c \<le> 0 \<longrightarrow>
                  localeCompare e a c \<le> 0"
    and accepted: "projectPrismaToCrud e prisma = Inr v"
  shows "sorted_wrt (\<lambda>a b. localeCompare e (oauth_id a) (oauth_id b) \<le> 0)
           (oauth_providers (read_config v)) \<and>
         sorted_wrt (\<lambda>a b. localeCompare e (domain a) (domain b) \<le> 0)
           (read_domains (read_config v)) \<and>
         sorted_wrt (\<lambda>a b. localeCompare e a b \<le> 0)
           (team_creator_default_permissions (read_config v)) \<and>
         sorted_wrt (\<lambda>a b. localeCompare e a b \<le> 0)
           (team_member_default_permissions (read_config v)) \<and>
         enabled_oauth_providers (read_config v) =
           filter oauth_enabled (oauth_providers (read_config v))"
proof -
  from accepted obtain mapped where
    oauth: "oauth_providers (read_config v) =
       arraySort (\<lambda>a b. localeCompare e (oauth_id a) (oauth_id b))
         (concat (map (\<lambda>provider. case provider of None \<Rightarrow> [] | Some p \<Rightarrow> [p]) mapped))"
    and enabled: "enabled_oauth_providers (read_config v) =
       filter oauth_enabled (oauth_providers (read_config v))"
    and doms: "read_domains (read_config v) =
       arraySort (\<lambda>a b. localeCompare e (domain a) (domain b))
         (map (\<lambda>d. \<lparr>domain = domainName d, handler_path = handlerPath d\<rparr>)
            (domains (config prisma)))"
    and creator: "team_creator_default_permissions (read_config v) =
       defaultPermissionIds e isDefaultTeamCreatorPermission
         (teamCreateDefaultSystemPermissions (config prisma)) (permissions (config prisma))"
    and member: "team_member_default_permissions (read_config v) =
       defaultPermissionIds e isDefaultTeamMemberPermission
         (teamMemberDefaultSystemPermissions (config prisma)) (permissions (config prisma))"
    by (rule projectPrismaToCrud_lists)
  have ids: "sorted_wrt (\<lambda>a b. localeCompare e a b \<le> 0) (defaultPermissionIds e flag sys perms)"
    for flag sys perms
    unfolding defaultPermissionIds_def
    using sorted_arraySort_key [OF total trans, where key = "\<lambda>x. x"] by simp
  have "sorted_wrt (\<lambda>a b. localeCompare e (oauth_id a) (oauth_id b) \<le> 0)
           (oauth_providers (read_config v))"
    unfolding oauth by (rule sorted_arraySort_key [OF total trans])
  moreover have "sorted_wrt (\<lambda>a b. localeCompare e (domain a) (domain b) \<le> 0)
           (read_domains (read_config v))"
    unfolding doms by (rule sorted_arraySort_key [OF total trans])
  moreover have "sorted_wrt (\<lambda>a b. localeCompare e a b \<le> 0)
           (team_creator_default_permissions (read_config v))"
    unfolding creator by (rule ids)
  moreover have "sorted_wrt (\<lambda>a b. localeCompare e a b \<le> 0)
           (team_member_default_permissions (read_config v))"
    unfolding member by (rule ids)
  ultimately show ?thesis using enabled by (intro conjI)
qed

theorem projectPrismaToCrud_sorted_witness:
  "map oauth_id (oauth_providers (read_config (projr (projectPrismaToCrud exampleEnv exampleGraph)))) =
     [''github'', ''google''] \<and>
   map oauth_id (enabled_oauth_providers (read_config (projr (projectPrismaToCrud exampleEnv exampleGraph)))) =
     [''google''] \<and>
   map domain (read_domains (read_config (projr (projectPrismaToCrud exampleEnv exampleGraph)))) =
     [''https://a.example.com'', ''https://b.example.com''] \<and>
   sorted_wrt (\<lambda>a b. codeUnitCompare (oauth_id a) (oauth_id b) \<le> 0)
     (oauth_providers (read_config (projr (projectPrismaToCrud exampleEnv exampleGraph)))) \<and>
   sorted_wrt (\<lambda>a b. codeUnitCompare (domain a) (domain b) \<le> 0)
     (read_domains (read_config (projr (projectPrismaToCrud exampleEnv exampleGraph)))) \<and>
   sorted_wrt (\<lambda>a b. codeUnitCompare a b \<le> 0)
     (team_creator_default_permissions (read_config (projr (projectPrismaToCrud exampleEnv exampleGraph)))) \<and>
   sorted_wrt (\<lambda>a b. codeUnitCompare a b \<le> 0)
     (team_member_default_permissions (read_config (projr (projectPrismaToCrud exampleEnv exampleGraph))))"
proof -
  have env: "localeCompare exampleEnv = codeUnitCompare"
    by (simp add: exampleEnv_def)
  have total: "\<forall>a b. localeCompare exampleEnv a b \<le> 0 \<or> localeCompare exampleEnv b a \<le> 0"
    unfolding env by (rule codeUnitCompare_total)
  have trans: "\<forall>a b c. localeCompare exampleEnv a b \<le> 0 \<and> localeCompare exampleEnv b c \<le> 0 \<longrightarrow>
                  localeCompare exampleEnv a c \<le> 0"
    unfolding env by (rule codeUnitCompare_trans)
  have "\<not> isl (projectPrismaToCrud exampleEnv exampleGraph)"
    by (simp add: model_defs graph_defs exampleGraph_def example_defs)
  then have accepted: "projectPrismaToCrud exampleEnv exampleGraph =
      Inr (projr (projectPrismaToCrud exampleEnv exampleGraph))"
    by (cases "projectPrismaToCrud exampleEnv exampleGraph") simp_all
  have lists: "map oauth_id (oauth_providers (read_config (projr (projectPrismaToCrud exampleEnv exampleGraph)))) =
     [''github'', ''google'']"
    "map oauth_id (enabled_oauth_providers (read_config (projr (projectPrismaToCrud exampleEnv exampleGraph)))) =
     [''google'']"
    "map domain (read_domains (read_config (projr (projectPrismaToCrud exampleEnv exampleGraph)))) =
     [''https://a.example.com'', ''https://b.example.com'']"
    by (simp_all add: model_defs graph_defs exampleGraph_def example_defs)
  from projectPrismaToCrud_sorted [OF total trans accepted] lists show ?thesis
    unfolding env by simp
qed

subsection \<open>Provisioning\<close>

lemma emailServiceConfigCreate_None:
  "emailServiceConfigCreate None = Inr \<lparr>proxiedEmailServiceConfig = Some (), standardEmailServiceConfig = None\<rparr>"
  by (simp add: emailServiceConfigCreate_def)

lemma projectPrismaToCrud_email:
  "projectPrismaToCrud e g = Inr view \<Longrightarrow> emailConfigOfProject g = Inr (email_config (read_config view))"
  by (auto simp: projectPrismaToCrud_def bindE_eq_Inr Let_def)

text \<open>
  C6. Whatever the request, a successful \<open>createProject\<close> leaves exactly two
  permissions on the new project: \<open>member\<close>, the team member default, with parent
  edges to the system permissions READ_MEMBERS and INVITE_MEMBERS, and \<open>admin\<close>, the
  team creator default, with parent edges to UPDATE_TEAM, DELETE_TEAM, READ_MEMBERS,
  REMOVE_MEMBERS and INVITE_MEMBERS.
\<close>

theorem createProject_default_permissions:
  assumes "createProject e gen ownerIds data w = (Inr view, w')"
  shows "\<exists>g. projects (db w') (newProjectId gen) = Some g \<and>
           permissions (config g) =
             [\<lparr>permissionProjectId = newProjectId gen,
               permissionProjectConfigId = newConfigId gen,
               queryableId = ''member'',
               permissionDescription = ''Default permission for team members'',
               permissionScope = ''TEAM'',
               parentEdges =
                 [\<lparr>parentTeamSystemPermission = Some ''READ_MEMBERS'', parentPermissionDbId = None\<rparr>,
                  \<lparr>parentTeamSystemPermission = Some ''INVITE_MEMBERS'', parentPermissionDbId = None\<rparr>],
               isDefaultTeamCreatorPermission = False,
               isDefaultTeamMemberPermission = True\<rparr>,
              \<lparr>permissionProjectId = newProjectId gen,
               permissionProjectConfigId = newConfigId gen,
               queryableId = ''admin'',
               permissionDescription = ''Default permission for team creators'',
               permissionScope = ''TEAM'',
               parentEdges =
                 [\<lparr>parentTeamSystemPermission = Some ''UPDATE_TEAM'', parentPermissionDbId = None\<rparr>,
                  \<lparr>parentTeamSystemPermission = Some ''DELETE_TEAM'', parentPermissionDbId = None\<rparr>,
                  \<lparr>parentTeamSystemPermission = Some ''READ_MEMBERS'', parentPermissionDbId = None\<rparr>,
                  \<lparr>parentTeamSystemPermission = Some ''REMOVE_MEMBERS'', parentPermissionDbId = None\<rparr>,
                  \<lparr>parentTeamSystemPermission = Some ''INVITE_MEMBERS'', parentPermissionDbId = None\<rparr>],
               isDefaultTeamCreatorPermission = True,
               isDefaultTeamMemberPermission = False\<rparr>]"
proof -
  from assms obtain project authCreates authRows connectedCreates connectedRows where
    data: "projectCreateData e gen data = Inr project"
    and pid: "projectId project = newProjectId gen"
    and stored: "projects (db w') (newProjectId gen) =
             Some (project\<lparr>config := (config project)
                    \<lparr>authMethodConfigs := authMethodConfigs (config project) @ authRows,
                     connectedAccountConfigs := connectedAccountConfigs (config project) @ connectedRows,
                     permissions := permissions (config project) @
                        [memberPermission project, adminPermission project]\<rparr>\<rparr>)"
    by (rule createProject_graph)
  from data have "permissions (config project) = []"
    and "configId (config project) = newConfigId gen"
    by (auto elim: projectCreateData_Inr)
  with stored pid show ?thesis
    by (simp add: memberPermission_def adminPermission_def systemPermissionEdge_def)
qed

theorem createProject_default_permissions_witness:
  "\<exists>g. projects (db (snd (createProject exampleEnv exampleFresh [''u1'', ''ghost'']
                             exampleRequest exampleWorld))) ''p1'' = Some g \<and>
       map queryableId (permissions (config g)) = [''member'', ''admin''] \<and>
       map (map parentTeamSystemPermission \<circ> parentEdges) (permissions (config g)) =
         [[Some ''READ_MEMBERS'', Some ''INVITE_MEMBERS''],
          [Some ''UPDATE_TEAM'', Some ''DELETE_TEAM'', Some ''READ_MEMBERS'',
           Some ''REMOVE_MEMBERS'', Some ''INVITE_MEMBERS'']]"
  using createProject_default_permissions [OF example_run]
  by (auto simp: exampleFresh_def)

text \<open>
  C7. When the request supplies no \<open>email_config\<close> (or no \<open>config\<close> at all), a
  successful \<open>createProject\<close> stores the shared email variant and the view it returns
  has \<open>email_config = {type: "shared"}\<close>.
\<close>

theorem createProject_default_email:
  assumes "createProject e gen ownerIds data w = (Inr view, w')"
    and "configField req_email_config data = None"
  shows "email_config (read_config view) =
           \<lparr>email_type = Shared, email_host = None, email_port = None,
            email_username = None, email_password = None,
            sender_email = None, sender_name = None\<rparr> \<and>
         (\<exists>g. projects (db w') (newProjectId gen) = Some g \<and>
              emailServiceConfig (config g) =
                Some \<lparr>proxiedEmailServiceConfig = Some (), standardEmailServiceConfig = None\<rparr>)"
proof -
  from assms(1) obtain project authCreates authRows connectedCreates connectedRows where
    data: "projectCreateData e gen data = Inr project"
    and stored: "projects (db w') (newProjectId gen) =
             Some (project\<lparr>config := (config project)
                    \<lparr>authMethodConfigs := authMethodConfigs (config project) @ authRows,
                     connectedAccountConfigs := connectedAccountConfigs (config project) @ connectedRows,
                     permissions := permissions (config project) @
                        [memberPermission project, adminPermission project]\<rparr>\<rparr>)"
    and view: "projectPrismaToCrud e
             (project\<lparr>config := (config project)
                    \<lparr>authMethodConfigs := authMethodConfigs (config project) @ authRows,
                     connectedAccountConfigs := connectedAccountConfigs (config project) @ connectedRows,
                     permissions := permissions (config project) @
                        [memberPermission project, adminPermission project]\<rparr>\<rparr>) = Inr view"
    by (rule createProject_graph)
  from data assms(2)
  have email: "emailServiceConfig (config project) =
      Some \<lparr>proxiedEmailServiceConfig = Some (), standardEmailServiceConfig = None\<rparr>"
    by (auto simp: emailServiceConfigCreate_None elim!: projectCreateData_Inr)
  from projectPrismaToCrud_email [OF view] email
  have "email_config (read_config view) =
           \<lparr>email_type = Shared, email_host = None, email_port = None,
            email_username = None, email_password = None,
            sender_email = None, sender_name = None\<rparr>"
    by (simp add: emailConfigOfProject_def)
  with stored email show ?thesis by simp
qed

theorem createProject_default_email_witness:
  "configField req_email_config exampleRequest = None \<and>
   fst (createProject exampleEnv exampleFresh [''u1'', ''ghost''] exampleRequest exampleWorld) =
     Inr exampleView \<and>
   email_type (email_config (read_config exampleView)) = Shared"
proof -
  have none: "configField req_email_config exampleRequest = None"
    by (simp add: configField_def exampleRequest_def exampleConfig_def)
  from createProject_default_email [OF example_run none] none example_run show ?thesis
    by (simp add: prod_eq_iff)
qed

text \<open>
  C4. A request with a \<open>standard\<close> OAuth provider entry whose \<open>client_id\<close> or
  \<open>client_secret\<close> is absent makes \<open>createProject\<close> fail with an error of the
  ValidationError category and leaves the store as it was: no project row is written.
\<close>

theorem createProject_standard_credentials_required:
  assumes "configField req_oauth_providers data = Some providers"
    and "item \<in> set providers"
    and "oauth_type item = Standard"
    and "client_id item = None \<or> client_secret item = None"
  shows "\<exists>err. createProject e gen ownerIds data w = (Inl err, w) \<and>
               category err = ValidationError"
proof -
  from oauthProviderConfigCreate_missing_credentials [OF assms(3,4), of e]
  obtain err0 where bad: "oauthProviderConfigCreate e item = Inl err0"
    by (elim exE) (rule that)
  from mapE_fails [where f = "oauthProviderConfigCreate e", OF assms(2) bad] obtain err where
    m: "mapE (oauthProviderConfigCreate e) providers = Inl err"
    by (elim exE) (rule that)
  from mapE_Inl_source [where f = "oauthProviderConfigCreate e", OF m] obtain culprit where
    "oauthProviderConfigCreate e culprit = Inl err"
    by (elim bexE) (rule that)
  then have cat: "category err = ValidationError"
    by (rule oauthProviderConfigCreate_error)
  from m assms(1) have "projectCreateData e gen data = Inl err"
    by (simp add: projectCreateData_def)
  then have "provisionProject e gen data (db w) = Inl err"
    by (simp add: provisionProject_def)
  then have "createProjectTx e gen ownerIds data w = (Inl err, w)"
    by (simp add: createProjectTx_def)
  then have "createProject e gen ownerIds data w = (Inl err, w)"
    by (simp add: createProject_def transaction_def)
  with cat show ?thesis by (intro exI [of _ err] conjI)
qed

theorem createProject_standard_credentials_required_witness:
  "createProject exampleEnv exampleFresh [''u1''] incompleteRequest exampleWorld =
     (Inl (ThrowErr ''client_secret is required''), exampleWorld) \<and>
   category (ThrowErr ''client_secret is required'') = ValidationError \<and>
   projects (db exampleWorld) ''p1'' = None"
proof -
  have "configField req_oauth_providers incompleteRequest =
      Some [googleShared, githubStandard\<lparr>client_secret := None\<rparr>]"
    by (simp add: configField_def incompleteRequest_def exampleConfig_def)
  from createProject_standard_credentials_required
         [OF this, of "githubStandard\<lparr>client_secret := None\<rparr>" exampleEnv exampleFresh
            "[''u1'']" exampleWorld]
  obtain err where
    run: "createProject exampleEnv exampleFresh [''u1''] incompleteRequest exampleWorld =
            (Inl err, exampleWorld)"
    by (auto simp: githubStandard_def)
  have "fst (createProject exampleEnv exampleFresh [''u1''] incompleteRequest exampleWorld) =
      Inl (ThrowErr ''client_secret is required'')"
    by (simp add: model_defs example_defs incompleteRequest_def)
  with run show ?thesis by (simp add: exampleWorld_def)
qed

subsection \<open>Auth methods and connected accounts\<close>

lemma requestedEnabled_found:
  assumes "configField req_oauth_providers data = Some ps"
    and "distinct (map oauth_id ps)"
    and "p \<in> set ps"
    and "oauthProviderConfigId pc = oauth_id p"
  shows "requestedEnabled data pc = Inr (oauth_enabled p)"
  using assms find_distinct_key [of oauth_id ps p]
  by (simp add: requestedEnabled_def orThrowErr_def)

lemma requestedEnabled_absent:
  assumes "\<forall>p \<in> set (orDefault (configField req_oauth_providers data) []).
             oauth_id p \<noteq> oauthProviderConfigId item"
  shows "requestedEnabled data item = Inl (ThrowErr ''oauth provider not found'')"
proof -
  have "(case configField req_oauth_providers data of
           None \<Rightarrow> None
         | Some providers \<Rightarrow> find (\<lambda>p. oauth_id p = oauthProviderConfigId item) providers) = None"
    using assms
    by (cases "configField req_oauth_providers data") (auto simp: orDefault_def find_None_iff)
  then show ?thesis
    by (simp add: requestedEnabled_def orThrowErr_def)
qed

lemma authMethod_oauth_creates:
  assumes "configField req_oauth_providers data = Some ps"
    and "distinct (map oauth_id ps)"
  shows "list_all2 (\<lambda>p pc. oauthProviderConfigId pc = oauth_id p) qs pcs \<Longrightarrow> set qs \<subseteq> set ps \<Longrightarrow>
         mapE (\<lambda>item.
                 bindE (requestedEnabled data item)
                   (\<lambda>en. Inr \<lparr>create_enabled = en,
                              create_oauthProviderConfig = Some (cid, oauthProviderConfigId item),
                              create_otpConfig = None,
                              create_passwordConfig = None,
                              create_passkeyConfig = None\<rparr>)) pcs =
         Inr (map (\<lambda>p. \<lparr>create_enabled = oauth_enabled p,
                         create_oauthProviderConfig = Some (cid, oauth_id p),
                         create_otpConfig = None,
                         create_passwordConfig = None,
                         create_passkeyConfig = None\<rparr>) qs)"
proof (induction qs pcs rule: list_all2_induct)
  case Nil
  then show ?case by simp
next
  case (Cons q qs pc pcs)
  from Cons.prems have "q \<in> set ps" by simp
  from requestedEnabled_found [OF assms this Cons.hyps(1)] Cons show ?case by simp
qed

lemma connectedAccount_creates:
  assumes "configField req_oauth_providers data = Some ps"
    and "distinct (map oauth_id ps)"
  shows "list_all2 (\<lambda>p pc. oauthProviderConfigId pc = oauth_id p) qs pcs \<Longrightarrow> set qs \<subseteq> set ps \<Longrightarrow>
         mapE (\<lambda>item.
                 bindE (requestedEnabled data item)
                   (\<lambda>en. Inr \<lparr>connected_enabled = en,
                              connected_oauthProviderConfig = (cid, oauthProviderConfigId item)\<rparr>)) pcs =
         Inr (map (\<lambda>p. \<lparr>connected_enabled = oauth_enabled p,
                         connected_oauthProviderConfig = (cid, oauth_id p)\<rparr>) qs)"
proof (induction qs pcs rule: list_all2_induct)
  case Nil
  then show ?case by simp
next
  case (Cons q qs pc pcs)
  from Cons.prems have "q \<in> set ps" by simp
  from requestedEnabled_found [OF assms this Cons.hyps(1)] Cons show ?case by simp
qed

lemma provider_ids:
  "list_all2 (\<lambda>item pc. oauthProviderConfigCreate e item = Inr pc) ps pcs \<Longrightarrow>
   list_all2 (\<lambda>p pc. oauthProviderConfigId pc = oauth_id p) ps pcs"
  by (erule list_all2_mono) (rule oauthProviderConfigCreate_id)

lemma provider_ids_map:
  "list_all2 (\<lambda>p pc. oauthProviderConfigId pc = oauth_id p) ps pcs \<Longrightarrow>
   map oauthProviderConfigId pcs = map oauth_id ps"
  by (induction ps pcs rule: list_all2_induct) auto

text \<open>The rows a successful call leaves, by content.\<close>

lemma createProject_rows:
  assumes "createProject e gen ownerIds data w = (Inr view, w')"
  obtains g where
    "projects (db w') (newProjectId gen) = Some g"
    "distinct (map oauth_id (orDefault (configField req_oauth_providers data) []))"
    "map (\<lambda>r. (authMethodEnabled r,
               map_option oauthProviderConfigId (authMethodOAuthProviderConfig r),
               otpConfig r, passwordConfig r, passkeyConfig r))
       (authMethodConfigs (config g)) =
     map (\<lambda>p. (oauth_enabled p, Some (oauth_id p), None, None, None))
       (orDefault (configField req_oauth_providers data) []) @
     (if configField req_magic_link_enabled data = Some True
      then [(True, None, Some \<lparr>contactChannelType = ''EMAIL''\<rparr>, None, None)] else []) @
     (if orDefault (configField req_credential_enabled data) True
      then [(True, None, None, Some (), None)] else []) @
     (if configField req_passkey_enabled data = Some True
      then [(True, None, None, None, Some ())] else [])"
    "map (\<lambda>r. (map_option oauthProviderConfigId (connectedAccountOAuthProviderConfig r),
               connectedAccountEnabled r))
       (connectedAccountConfigs (config g)) =
     map (\<lambda>p. (Some (oauth_id p), oauth_enabled p))
       (orDefault (configField req_oauth_providers data) [])"
proof -
  from assms obtain project authCreates authRows connectedCreates connectedRows where
    data: "projectCreateData e gen data = Inr project"
    and dist: "distinct (map oauthProviderConfigId (oauthProviderConfigs (config project)))"
    and ac: "authMethodConfigCreates data project = Inr authCreates"
    and ar: "list_all2 (\<lambda>ix r. authMethodConfigRow gen (config project) ix = Inr r)
       (enumerate 0 authCreates) authRows"
    and cc: "connectedAccountConfigCreates data project = Inr connectedCreates"
    and cr: "list_all2 (\<lambda>ix r. connectedAccountConfigRow gen
             ((config project)\<lparr>authMethodConfigs := authMethodConfigs (config project) @ authRows\<rparr>) ix = Inr r)
       (enumerate 0 connectedCreates) connectedRows"
    and stored: "projects (db w') (newProjectId gen) =
       Some (project\<lparr>config := (config project)
              \<lparr>authMethodConfigs := authMethodConfigs (config project) @ authRows,
               connectedAccountConfigs := connectedAccountConfigs (config project) @ connectedRows,
               permissions := permissions (config project) @
                  [memberPermission project, adminPermission project]\<rparr>\<rparr>)"
    by (rule createProject_graph)
  define ps where "ps = orDefault (configField req_oauth_providers data) []"
  from data obtain email where
    created: "list_all2 (\<lambda>item pc. oauthProviderConfigCreate e item = Inr pc)
       ps (oauthProviderConfigs (config project))"
    and empty: "authMethodConfigs (config project) = []"
      "connectedAccountConfigs (config project) = []"
    unfolding ps_def by (rule projectCreateData_Inr)
  from created have ids: "list_all2 (\<lambda>p pc. oauthProviderConfigId pc = oauth_id p)
       ps (oauthProviderConfigs (config project))"
    by (rule provider_ids)
  with dist have distinct: "distinct (map oauth_id ps)"
    by (simp add: provider_ids_map)
  have oauthCreates: "(case configField req_oauth_providers data of
            Some providers \<Rightarrow>
                mapE (\<lambda>item.
                        bindE (requestedEnabled data item)
                          (\<lambda>en. Inr \<lparr>create_enabled = en,
                                     create_oauthProviderConfig =
                                       Some (configId (config project), oauthProviderConfigId item),
                                     create_otpConfig = None,
                                     create_passwordConfig = None,
                                     create_passkeyConfig = None\<rparr>))
                  (oauthProviderConfigs (config project))
            | None \<Rightarrow> Inr []) =
         Inr (map (\<lambda>p. \<lparr>create_enabled = oauth_enabled p,
                         create_oauthProviderConfig = Some (configId (config project), oauth_id p),
                         create_otpConfig = None,
                         create_passwordConfig = None,
                         create_passkeyConfig = None\<rparr>) ps)"
  proof (cases "configField req_oauth_providers data")
    case None
    then show ?thesis by (simp add: ps_def orDefault_def)
  next
    case (Some providers)
    then have "ps = providers" by (simp add: ps_def orDefault_def)
    with Some distinct ids show ?thesis
      using authMethod_oauth_creates [of data providers ps "oauthProviderConfigs (config project)"]
      by simp
  qed
  have connCreates: "connectedAccountConfigCreates data project =
         Inr (map (\<lambda>p. \<lparr>connected_enabled = oauth_enabled p,
                         connected_oauthProviderConfig = (configId (config project), oauth_id p)\<rparr>) ps)"
  proof (cases "configField req_oauth_providers data")
    case None
    then show ?thesis by (simp add: ps_def orDefault_def connectedAccountConfigCreates_def)
  next
    case (Some providers)
    then have "ps = providers" by (simp add: ps_def orDefault_def)
    with Some distinct ids show ?thesis
      using connectedAccount_creates [of data providers ps "oauthProviderConfigs (config project)"]
      by (simp add: connectedAccountConfigCreates_def)
  qed
  from ac oauthCreates have authCreates: "authCreates =
       map (\<lambda>p. \<lparr>create_enabled = oauth_enabled p,
                         create_oauthProviderConfig = Some (configId (config project), oauth_id p),
                         create_otpConfig = None,
                         create_passwordConfig = None,
                         create_passkeyConfig = None\<rparr>) ps @
               (if configField req_magic_link_enabled data = Some True
                then [\<lparr>create_enabled = True, create_oauthProviderConfig = None,
                       create_otpConfig = Some \<lparr>contactChannelType = ''EMAIL''\<rparr>,
                       create_passwordConfig = None, create_passkeyConfig = None\<rparr>]
                else []) @
               (if orDefault (configField req_credential_enabled data) True
                then [\<lparr>create_enabled = True, create_oauthProviderConfig = None,
                       create_otpConfig = None,
                       create_passwordConfig = Some (), create_passkeyConfig = None\<rparr>]
                else []) @
               (if configField req_passkey_enabled data = Some True
                then [\<lparr>create_enabled = True, create_oauthProviderConfig = None,
                       create_otpConfig = None,
                       create_passwordConfig = None, create_passkeyConfig = Some ()\<rparr>]
                else [])"
    by (simp add: authMethodConfigCreates_def)
  from ar have "map (\<lambda>r. (authMethodEnabled r,
               map_option oauthProviderConfigId (authMethodOAuthProviderConfig r),
               otpConfig r, passwordConfig r, passkeyConfig r)) authRows =
     map (\<lambda>c. (create_enabled c, map_option snd (create_oauthProviderConfig c),
               create_otpConfig c, create_passwordConfig c, create_passkeyConfig c)) authCreates"
    by (intro list_all2_enumerate_map_eq [where n = 0] list_all2_mono [OF ar])
      (auto dest: authMethodConfigRow_content)
  then have authContent: "map (\<lambda>r. (authMethodEnabled r,
               map_option oauthProviderConfigId (authMethodOAuthProviderConfig r),
               otpConfig r, passwordConfig r, passkeyConfig r)) authRows =
     map (\<lambda>p. (oauth_enabled p, Some (oauth_id p), None, None, None)) ps @
     (if configField req_magic_link_enabled data = Some True
      then [(True, None, Some \<lparr>contactChannelType = ''EMAIL''\<rparr>, None, None)] else []) @
     (if orDefault (configField req_credential_enabled data) True
      then [(True, None, None, Some (), None)] else []) @
     (if configField req_passkey_enabled data = Some True
      then [(True, None, None, None, Some ())] else [])"
    unfolding authCreates by (simp add: comp_def)
  from cr have "map (\<lambda>r. (map_option oauthProviderConfigId (connectedAccountOAuthProviderConfig r),
               connectedAccountEnabled r)) connectedRows =
     map (\<lambda>c. (Some (snd (connected_oauthProviderConfig c)), connected_enabled c)) connectedCreates"
    by (intro list_all2_enumerate_map_eq [where n = 0] list_all2_mono [OF cr])
      (auto dest: connectedAccountConfigRow_content)
  moreover from cc connCreates have "connectedCreates =
      map (\<lambda>p. \<lparr>connected_enabled = oauth_enabled p,
                      connected_oauthProviderConfig = (configId (config project), oauth_id p)\<rparr>) ps"
    by simp
  ultimately have connContent:
    "map (\<lambda>r. (map_option oauthProviderConfigId (connectedAccountOAuthProviderConfig r),
               connectedAccountEnabled r)) connectedRows =
     map (\<lambda>p. (Some (oauth_id p), oauth_enabled p)) ps"
    by (simp add: comp_def)
  show ?thesis
  proof (rule that)
    show "projects (db w') (newProjectId gen) =
       Some (project\<lparr>config := (config project)
              \<lparr>authMethodConfigs := authMethodConfigs (config project) @ authRows,
               connectedAccountConfigs := connectedAccountConfigs (config project) @ connectedRows,
               permissions := permissions (config project) @
                  [memberPermission project, adminPermission project]\<rparr>\<rparr>)"
      by (rule stored)
    show "distinct (map oauth_id (orDefault (configField req_oauth_providers data) []))"
      using distinct by (simp add: ps_def)
  qed (use authContent connContent empty in \<open>simp_all add: ps_def\<close>)
qed

lemma filter_distinct_key:
  "distinct (map k ps) \<Longrightarrow> p \<in> set ps \<Longrightarrow> filter (\<lambda>q. k q = k p) ps = [p]"
proof (induction ps)
  case Nil
  then show ?case by simp
next
  case (Cons a ps)
  show ?case
  proof (cases "a = p")
    case True
    with Cons.prems have "\<forall>q \<in> set ps. k q \<noteq> k p" by (auto simp: image_iff)
    then have "filter (\<lambda>q. k q = k p) ps = []" by (simp add: filter_empty_conv)
    with True show ?thesis by simp
  next
    case False
    with Cons.prems have "p \<in> set ps" "k a \<noteq> k p" by (auto simp: image_iff)
    with Cons show ?thesis by simp
  qed
qed

lemma unique_row:
  assumes dist: "distinct (map k ps)"
    and p: "p \<in> set ps"
    and rows: "map f rows = map (\<lambda>q. (Some (k q), en q)) ps @ extra"
    and extra: "\<forall>x \<in> set extra. fst x = None"
  shows "length (filter (\<lambda>r. fst (f r) = Some (k p)) rows) = 1 \<and>
         (\<forall>r \<in> set rows. fst (f r) = Some (k p) \<longrightarrow> snd (f r) = en p)"
proof -
  have "map f (filter (\<lambda>r. fst (f r) = Some (k p)) rows) =
        filter (\<lambda>x. fst x = Some (k p)) (map f rows)"
    by (simp add: filter_map comp_def)
  also have "\<dots> = map (\<lambda>q. (Some (k q), en q)) (filter (\<lambda>q. k q = k p) ps) @
                  filter (\<lambda>x. fst x = Some (k p)) extra"
    unfolding rows by (simp add: filter_map comp_def)
  also have "filter (\<lambda>x. fst x = Some (k p)) extra = []"
    using extra by (simp add: filter_empty_conv)
  also have "filter (\<lambda>q. k q = k p) ps = [p]"
    using dist p by (rule filter_distinct_key)
  finally have eq: "map f (filter (\<lambda>r. fst (f r) = Some (k p)) rows) = [(Some (k p), en p)]"
    by simp
  then have "length (map f (filter (\<lambda>r. fst (f r) = Some (k p)) rows)) = 1" by simp
  then have len: "length (filter (\<lambda>r. fst (f r) = Some (k p)) rows) = 1" by simp
  have "snd (f r) = en p" if "r \<in> set rows" "fst (f r) = Some (k p)" for r
  proof -
    from that have "f r \<in> set (map f (filter (\<lambda>r. fst (f r) = Some (k p)) rows))" by simp
    with eq show ?thesis by simp
  qed
  with len show ?thesis by blast
qed

text \<open>
  C5. After a successful \<open>createProject\<close> the auth methods of the new project are, in
  this order: one per requested OAuth provider, referring to it and enabled as its
  request entry says; one enabled OTP method with contact channel EMAIL iff
  \<open>magic_link_enabled\<close> was true; one enabled password method unless
  \<open>credential_enabled\<close> was false; one enabled passkey method iff \<open>passkey_enabled\<close>
  was true. Looking up the enabled flag of a provider configuration whose id is in no
  request entry throws (\<^verbatim>\<open>throwErr("oauth provider not found")\<close>).
\<close>

theorem createProject_auth_methods:
  assumes "createProject e gen ownerIds data w = (Inr view, w')"
  shows "(\<exists>g. projects (db w') (newProjectId gen) = Some g \<and>
            map (\<lambda>r. (authMethodEnabled r,
                       map_option oauthProviderConfigId (authMethodOAuthProviderConfig r),
                       otpConfig r, passwordConfig r, passkeyConfig r))
              (authMethodConfigs (config g)) =
            map (\<lambda>p. (oauth_enabled p, Some (oauth_id p), None, None, None))
              (orDefault (configField req_oauth_providers data) []) @
            (if configField req_magic_link_enabled data = Some True
             then [(True, None, Some \<lparr>contactChannelType = ''EMAIL''\<rparr>, None, None)] else []) @
            (if configField req_credential_enabled data = Some False
             then [] else [(True, None, None, Some (), None)]) @
            (if configField req_passkey_enabled data = Some True
             then [(True, None, None, None, Some ())] else [])) \<and>
         (\<forall>item. (\<forall>p \<in> set (orDefault (configField req_oauth_providers data) []).
                     oauth_id p \<noteq> oauthProviderConfigId item) \<longrightarrow>
                 requestedEnabled data item = Inl (ThrowErr ''oauth provider not found''))"
proof -
  from assms obtain g where
    stored: "projects (db w') (newProjectId gen) = Some g"
    and rows: "map (\<lambda>r. (authMethodEnabled r,
               map_option oauthProviderConfigId (authMethodOAuthProviderConfig r),
               otpConfig r, passwordConfig r, passkeyConfig r))
       (authMethodConfigs (config g)) =
     map (\<lambda>p. (oauth_enabled p, Some (oauth_id p), None, None, None))
       (orDefault (configField req_oauth_providers data) []) @
     (if configField req_magic_link_enabled data = Some True
      then [(True, None, Some \<lparr>contactChannelType = ''EMAIL''\<rparr>, None, None)] else []) @
     (if orDefault (configField req_credential_enabled data) True
      then [(True, None, None, Some (), None)] else []) @
     (if configField req_passkey_enabled data = Some True
      then [(True, None, None, None, Some ())] else [])"
    by (rule createProject_rows)
  have cred: "orDefault (configField req_credential_enabled data) True \<longleftrightarrow>
      configField req_credential_enabled data \<noteq> Some False"
    by (cases "configField req_credential_enabled data") (simp_all add: orDefault_def)
  from stored rows have "\<exists>g. projects (db w') (newProjectId gen) = Some g \<and>
            map (\<lambda>r. (authMethodEnabled r,
                       map_option oauthProviderConfigId (authMethodOAuthProviderConfig r),
                       otpConfig r, passwordConfig r, passkeyConfig r))
              (authMethodConfigs (config g)) =
            map (\<lambda>p. (oauth_enabled p, Some (oauth_id p), None, None, None))
              (orDefault (configField req_oauth_providers data) []) @
            (if configField req_magic_link_enabled data = Some True
             then [(True, None, Some \<lparr>contactChannelType = ''EMAIL''\<rparr>, None, None)] else []) @
            (if configField req_credential_enabled data = Some False
             then [] else [(True, None, None, Some (), None)]) @
            (if configField req_passkey_enabled data = Some True
             then [(True, None, None, None, Some ())] else [])"
    unfolding cred by (intro exI [of _ g]) simp
  then show ?thesis
    using requestedEnabled_absent [of data] by blast
qed

theorem createProject_auth_methods_witness:
  "\<exists>g. projects (db (snd (createProject exampleEnv exampleFresh [''u1'', ''ghost'']
                             exampleRequest exampleWorld))) ''p1'' = Some g \<and>
       map (\<lambda>r. (authMethodEnabled r,
                  map_option oauthProviderConfigId (authMethodOAuthProviderConfig r),
                  otpConfig r, passwordConfig r, passkeyConfig r))
         (authMethodConfigs (config g)) =
       [(True, Some ''google'', None, None, None),
        (False, Some ''github'', None, None, None),
        (True, None, None, Some (), None)]"
  using createProject_auth_methods [OF example_run]
  by (simp add: exampleFresh_def exampleRequest_def exampleConfig_def configField_def
      orDefault_def googleShared_def githubStandard_def)

text \<open>
  C2. After a successful \<open>createProject\<close> on a request with OAuth provider entries,
  the connected accounts and the OAuth auth methods of the new project both list the
  requested providers in request order with the requested enabled flags: every requested
  provider has exactly one row in each table, and the paired rows have the enabled flag
  of the request entry.
\<close>

theorem createProject_connected_accounts_mirror:
  assumes "createProject e gen ownerIds data w = (Inr view, w')"
    and "configField req_oauth_providers data = Some providers"
  shows "\<exists>g. projects (db w') (newProjectId gen) = Some g \<and>
           distinct (map oauth_id providers) \<and>
           map (\<lambda>r. (map_option oauthProviderConfigId (connectedAccountOAuthProviderConfig r),
                      connectedAccountEnabled r))
             (connectedAccountConfigs (config g)) =
           map (\<lambda>p. (Some (oauth_id p), oauth_enabled p)) providers \<and>
           map (\<lambda>r. (map_option oauthProviderConfigId (authMethodOAuthProviderConfig r),
                      authMethodEnabled r))
             (filter (\<lambda>r. authMethodOAuthProviderConfig r \<noteq> None) (authMethodConfigs (config g))) =
           map (\<lambda>p. (Some (oauth_id p), oauth_enabled p)) providers \<and>
           (\<forall>p \<in> set providers.
              length (filter (\<lambda>r. map_option oauthProviderConfigId (authMethodOAuthProviderConfig r) =
                                  Some (oauth_id p)) (authMethodConfigs (config g))) = 1 \<and>
              length (filter (\<lambda>r. map_option oauthProviderConfigId
                                    (connectedAccountOAuthProviderConfig r) =
                                  Some (oauth_id p)) (connectedAccountConfigs (config g))) = 1 \<and>
              (\<forall>r \<in> set (authMethodConfigs (config g)).
                 map_option oauthProviderConfigId (authMethodOAuthProviderConfig r) = Some (oauth_id p) \<longrightarrow>
                 authMethodEnabled r = oauth_enabled p) \<and>
              (\<forall>r \<in> set (connectedAccountConfigs (config g)).
                 map_option oauthProviderConfigId (connectedAccountOAuthProviderConfig r) =
                   Some (oauth_id p) \<longrightarrow>
                 connectedAccountEnabled r = oauth_enabled p))"
proof -
  have ps: "orDefault (configField req_oauth_providers data) [] = providers"
    using assms(2) by (simp add: orDefault_def)
  from assms(1) obtain g where
    stored: "projects (db w') (newProjectId gen) = Some g"
    and dist: "distinct (map oauth_id providers)"
    and auth5: "map (\<lambda>r. (authMethodEnabled r,
               map_option oauthProviderConfigId (authMethodOAuthProviderConfig r),
               otpConfig r, passwordConfig r, passkeyConfig r))
       (authMethodConfigs (config g)) =
     map (\<lambda>p. (oauth_enabled p, Some (oauth_id p), None, None, None)) providers @
     (if configField req_magic_link_enabled data = Some True
      then [(True, None, Some \<lparr>contactChannelType = ''EMAIL''\<rparr>, None, None)] else []) @
     (if orDefault (configField req_credential_enabled data) True
      then [(True, None, None, Some (), None)] else []) @
     (if configField req_passkey_enabled data = Some True
      then [(True, None, None, None, Some ())] else [])"
    and conn: "map (\<lambda>r. (map_option oauthProviderConfigId (connectedAccountOAuthProviderConfig r),
               connectedAccountEnabled r))
       (connectedAccountConfigs (config g)) =
     map (\<lambda>p. (Some (oauth_id p), oauth_enabled p)) providers"
    unfolding ps [symmetric] by (rule createProject_rows)
  define extra :: "(string option \<times> bool) list" where
    "extra = (if configField req_magic_link_enabled data = Some True then [(None, True)] else []) @
     (if orDefault (configField req_credential_enabled data) True then [(None, True)] else []) @
     (if configField req_passkey_enabled data = Some True then [(None, True)] else [])"
  have extra: "\<forall>x \<in> set extra. fst x = None"
    by (auto simp: extra_def)
  have "map (\<lambda>t. (fst (snd t), fst t))
          (map (\<lambda>r. (authMethodEnabled r,
               map_option oauthProviderConfigId (authMethodOAuthProviderConfig r),
               otpConfig r, passwordConfig r, passkeyConfig r))
            (authMethodConfigs (config g))) =
        map (\<lambda>p. (Some (oauth_id p), oauth_enabled p)) providers @ extra"
    unfolding auth5 extra_def by (simp add: comp_def)
  then have auth: "map (\<lambda>r. (map_option oauthProviderConfigId (authMethodOAuthProviderConfig r),
              authMethodEnabled r)) (authMethodConfigs (config g)) =
        map (\<lambda>p. (Some (oauth_id p), oauth_enabled p)) providers @ extra"
    by (simp add: comp_def)
  have "map (\<lambda>r. (map_option oauthProviderConfigId (authMethodOAuthProviderConfig r),
                      authMethodEnabled r))
             (filter (\<lambda>r. authMethodOAuthProviderConfig r \<noteq> None) (authMethodConfigs (config g))) =
        filter (\<lambda>x. fst x \<noteq> None)
          (map (\<lambda>r. (map_option oauthProviderConfigId (authMethodOAuthProviderConfig r),
              authMethodEnabled r)) (authMethodConfigs (config g)))"
    by (simp add: filter_map comp_def)
  also have "\<dots> = map (\<lambda>p. (Some (oauth_id p), oauth_enabled p)) providers"
    unfolding auth using extra by (simp add: filter_map comp_def filter_empty_conv)
  finally have oauthRows: "map (\<lambda>r. (map_option oauthProviderConfigId (authMethodOAuthProviderConfig r),
                      authMethodEnabled r))
             (filter (\<lambda>r. authMethodOAuthProviderConfig r \<noteq> None) (authMethodConfigs (config g))) =
        map (\<lambda>p. (Some (oauth_id p), oauth_enabled p)) providers" .
  have each: "length (filter (\<lambda>r. map_option oauthProviderConfigId (authMethodOAuthProviderConfig r) =
                                  Some (oauth_id p)) (authMethodConfigs (config g))) = 1 \<and>
              length (filter (\<lambda>r. map_option oauthProviderConfigId
                                    (connectedAccountOAuthProviderConfig r) =
                                  Some (oauth_id p)) (connectedAccountConfigs (config g))) = 1 \<and>
              (\<forall>r \<in> set (authMethodConfigs (config g)).
                 map_option oauthProviderConfigId (authMethodOAuthProviderConfig r) = Some (oauth_id p) \<longrightarrow>
                 authMethodEnabled r = oauth_enabled p) \<and>
              (\<forall>r \<in> set (connectedAccountConfigs (config g)).
                 map_option oauthProviderConfigId (connectedAccountOAuthProviderConfig r) =
                   Some (oauth_id p) \<longrightarrow>
                 connectedAccountEnabled r = oauth_enabled p)"
    if p: "p \<in> set providers" for p
  proof -
    from unique_row [OF dist p auth extra]
    have a: "length (filter (\<lambda>r. map_option oauthProviderConfigId (authMethodOAuthProviderConfig r) =
                                  Some (oauth_id p)) (authMethodConfigs (config g))) = 1"
      "\<forall>r \<in> set (authMethodConfigs (config g)).
                 map_option oauthProviderConfigId (authMethodOAuthProviderConfig r) = Some (oauth_id p) \<longrightarrow>
                 authMethodEnabled r = oauth_enabled p"
      by simp_all
    from conn have conn': "map (\<lambda>r. (map_option oauthProviderConfigId (connectedAccountOAuthProviderConfig r),
               connectedAccountEnabled r))
       (connectedAccountConfigs (config g)) =
     map (\<lambda>p. (Some (oauth_id p), oauth_enabled p)) providers @ []"
      by simp
    from unique_row [OF dist p conn']
    have c: "length (filter (\<lambda>r. map_option oauthProviderConfigId
                                    (connectedAccountOAuthProviderConfig r) =
                                  Some (oauth_id p)) (connectedAccountConfigs (config g))) = 1"
      "\<forall>r \<in> set (connectedAccountConfigs (config g)).
                 map_option oauthProviderConfigId (connectedAccountOAuthProviderConfig r) =
                   Some (oauth_id p) \<longrightarrow>
                 connectedAccountEnabled r = oauth_enabled p"
      by simp_all
    from a c show ?thesis by (intro conjI)
  qed
  have all: "\<forall>p \<in> set providers.
              length (filter (\<lambda>r. map_option oauthProviderConfigId (authMethodOAuthProviderConfig r) =
                                  Some (oauth_id p)) (authMethodConfigs (config g))) = 1 \<and>
              length (filter (\<lambda>r. map_option oauthProviderConfigId
                                    (connectedAccountOAuthProviderConfig r) =
                                  Some (oauth_id p)) (connectedAccountConfigs (config g))) = 1 \<and>
              (\<forall>r \<in> set (authMethodConfigs (config g)).
                 map_option oauthProviderConfigId (authMethodOAuthProviderConfig r) = Some (oauth_id p) \<longrightarrow>
                 authMethodEnabled r = oauth_enabled p) \<and>
              (\<forall>r \<in> set (connectedAccountConfigs (config g)).
                 map_option oauthProviderConfigId (connectedAccountOAuthProviderConfig r) =
                   Some (oauth_id p) \<longrightarrow>
                 connectedAccountEnabled r = oauth_enabled p)"
    by (rule ballI) (rule each)
  from stored dist conn oauthRows all show ?thesis
    by (intro exI [of _ g] conjI)
qed

theorem createProject_connected_accounts_mirror_witness:
  "\<exists>g. projects (db (snd (createProject exampleEnv exampleFresh [''u1'', ''ghost'']
                             exampleRequest exampleWorld))) ''p1'' = Some g \<and>
       map (\<lambda>r. (map_option oauthProviderConfigId (connectedAccountOAuthProviderConfig r),
                  connectedAccountEnabled r))
         (connectedAccountConfigs (config g)) =
       [(Some ''google'', True), (Some ''github'', False)] \<and>
       map (\<lambda>r. (map_option oauthProviderConfigId (authMethodOAuthProviderConfig r),
                  authMethodEnabled r))
         (filter (\<lambda>r. authMethodOAuthProviderConfig r \<noteq> None) (authMethodConfigs (config g))) =
       [(Some ''google'', True), (Some ''github'', False)]"
proof -
  have "configField req_oauth_providers exampleRequest = Some [googleShared, githubStandard]"
    by (simp add: configField_def exampleRequest_def exampleConfig_def)
  from createProject_connected_accounts_mirror [OF example_run this] show ?thesis
    by (auto simp: exampleFresh_def googleShared_def githubStandard_def)
qed

subsection \<open>Owner metadata\<close>

lemma linkOwner_missing:
  "projectUsers (db w) (''internal'', u) = None \<Longrightarrow>
   linkOwner pid u w =
     (Inr (), captureError ''project-creation-owner-not-found''
                (StackAssertionError (ownerNotFoundMessage u)) w)"
  by (simp add: linkOwner_def)

lemma linkOwner_present_log:
  "projectUsers (db w) (''internal'', u) \<noteq> None \<Longrightarrow> linkOwner pid u w = (r, w') \<Longrightarrow>
   capturedErrors w' = capturedErrors w"
  by (auto simp: linkOwner_def split: option.splits sum.splits)

lemma linkOwner_users_dom:
  "linkOwner pid u w = (r, w') \<Longrightarrow>
   (projectUsers (db w') k = None) = (projectUsers (db w) k = None)"
  by (auto simp: linkOwner_def captureError_def split: option.splits sum.splits if_splits)

lemma linkOwner_db_only:
  "db w1 = db w2 \<Longrightarrow>
   fst (linkOwner pid u w1) = fst (linkOwner pid u w2) \<and>
   db (snd (linkOwner pid u w1)) = db (snd (linkOwner pid u w2))"
  by (auto simp: linkOwner_def captureError_def split: option.splits sum.splits)

lemma linkOwners_db_only:
  "db w1 = db w2 \<Longrightarrow>
   fst (linkOwners pid us w1) = fst (linkOwners pid us w2) \<and>
   db (snd (linkOwners pid us w1)) = db (snd (linkOwners pid us w2))"
proof (induction us arbitrary: w1 w2)
  case Nil
  then show ?case by simp
next
  case (Cons u us)
  obtain r1 v1 where s1: "linkOwner pid u w1 = (r1, v1)" by (cases "linkOwner pid u w1")
  obtain r2 v2 where s2: "linkOwner pid u w2 = (r2, v2)" by (cases "linkOwner pid u w2")
  from linkOwner_db_only [OF Cons.prems, of pid u] s1 s2 have same: "r2 = r1" "db v1 = db v2"
    by simp_all
  from s2 same(1) have s2': "linkOwner pid u w2 = (r1, v2)" by simp
  show ?case
  proof (cases r1)
    case (Inl err)
    with s1 s2' same(2) show ?thesis by simp
  next
    case (Inr x)
    with s1 s2' Cons.IH [OF same(2)] show ?thesis by simp
  qed
qed

lemma linkOwners_skip_missing:
  "fst (linkOwners pid us w) =
     fst (linkOwners pid (filter (\<lambda>u. projectUsers (db w) (''internal'', u) \<noteq> None) us) w) \<and>
   db (snd (linkOwners pid us w)) =
     db (snd (linkOwners pid (filter (\<lambda>u. projectUsers (db w) (''internal'', u) \<noteq> None) us) w))"
proof (induction us arbitrary: w)
  case Nil
  then show ?case by simp
next
  case (Cons u us)
  show ?case
  proof (cases "projectUsers (db w) (''internal'', u) = None")
    case True
    define w1 where "w1 = captureError ''project-creation-owner-not-found''
                (StackAssertionError (ownerNotFoundMessage u)) w"
    have step: "linkOwner pid u w = (Inr (), w1)"
      unfolding w1_def using True by (rule linkOwner_missing)
    have "db w1 = db w" by (simp add: w1_def captureError_def)
    from linkOwners_db_only [OF this, of pid us] Cons.IH [of w] True step show ?thesis
      by simp
  next
    case False
    obtain r1 w1 where step: "linkOwner pid u w = (r1, w1)" by (cases "linkOwner pid u w")
    show ?thesis
    proof (cases r1)
      case (Inl err)
      with step False show ?thesis by simp
    next
      case (Inr x)
      have "(\<lambda>u. projectUsers (db w1) (''internal'', u) \<noteq> None) =
          (\<lambda>u. projectUsers (db w) (''internal'', u) \<noteq> None)"
        using linkOwner_users_dom [OF step] by (simp add: fun_eq_iff)
      with Cons.IH [of w1] Inr step False show ?thesis by simp
    qed
  qed
qed

lemma linkOwners_log:
  "linkOwners pid us w = (Inr x, w') \<Longrightarrow>
   capturedErrors w' = capturedErrors w @
     map (\<lambda>u. (''project-creation-owner-not-found'', StackAssertionError (ownerNotFoundMessage u)))
       (filter (\<lambda>u. projectUsers (db w) (''internal'', u) = None) us)"
proof (induction us arbitrary: w)
  case Nil
  then show ?case by simp
next
  case (Cons u us)
  obtain r1 w1 where step: "linkOwner pid u w = (r1, w1)" by (cases "linkOwner pid u w")
  with Cons.prems obtain y where r1: "r1 = Inr y" and rest: "linkOwners pid us w1 = (Inr x, w')"
    by (cases r1) auto
  have dom: "(\<lambda>u. projectUsers (db w1) (''internal'', u) = None) =
          (\<lambda>u. projectUsers (db w) (''internal'', u) = None)"
    using linkOwner_users_dom [OF step] by (simp add: fun_eq_iff)
  from Cons.IH [OF rest] dom have log: "capturedErrors w' = capturedErrors w1 @
     map (\<lambda>u. (''project-creation-owner-not-found'', StackAssertionError (ownerNotFoundMessage u)))
       (filter (\<lambda>u. projectUsers (db w) (''internal'', u) = None) us)"
    by simp
  show ?case
  proof (cases "projectUsers (db w) (''internal'', u) = None")
    case True
    with step have "capturedErrors w1 = capturedErrors w @
        [(''project-creation-owner-not-found'', StackAssertionError (ownerNotFoundMessage u))]"
      by (auto simp: linkOwner_missing captureError_def)
    with log True show ?thesis by simp
  next
    case False
    from linkOwner_present_log [OF False step] log False show ?thesis by simp
  qed
qed

lemma provisionProject_users:
  "provisionProject e gen data d = Inr (project, d') \<Longrightarrow> projectUsers d' = projectUsers d"
  by (auto dest!: provisionProject_Inr)

lemma mapE_total:
  "(\<forall>x \<in> set xs. \<exists>y. f x = Inr y) \<Longrightarrow> \<exists>ys. mapE f xs = Inr ys"
proof (induction xs)
  case Nil
  then show ?case by simp
next
  case (Cons x xs)
  then obtain y ys where "f x = Inr y" "mapE f xs = Inr ys" by auto
  then show ?case by simp
qed

lemma list_all2_right_source:
  "list_all2 P xs ys \<Longrightarrow> y \<in> set ys \<Longrightarrow> \<exists>x \<in> set xs. P x y"
  by (induction xs ys rule: list_all2_induct) auto

lemma oauthProviderConfigCreate_populated:
  "oauthProviderConfigCreate e item = Inr pc \<Longrightarrow>
     proxiedOAuthConfig pc \<noteq> None \<or> standardOAuthConfig pc \<noteq> None"
  using oauthProviderConfigCreate_variant [of e item pc]
  by (cases "oauth_type item") auto

lemma emailServiceConfigCreate_populated:
  "emailServiceConfigCreate email = Inr esc \<Longrightarrow>
     proxiedEmailServiceConfig esc \<noteq> None \<or> standardEmailServiceConfig esc \<noteq> None"
proof (cases email)
  case None
  then show "emailServiceConfigCreate email = Inr esc \<Longrightarrow> ?thesis"
    by (auto simp: emailServiceConfigCreate_def)
next
  case (Some ec)
  then show "emailServiceConfigCreate email = Inr esc \<Longrightarrow> ?thesis"
    by (cases "email_type ec") (auto simp: emailServiceConfigCreate_def bindE_eq_Inr)
qed

lemma oauthProviderOfAuthMethod_populated:
  assumes "authMethodOAuthProviderConfig r = None \<or>
           (\<exists>pc. authMethodOAuthProviderConfig r = Some pc \<and>
              (proxiedOAuthConfig pc \<noteq> None \<or> standardOAuthConfig pc \<noteq> None))"
  shows "\<exists>y. oauthProviderOfAuthMethod pid r = Inr y"
  using assms by (auto simp: oauthProviderOfAuthMethod_def split: option.splits)

lemma authMethodConfigRow_provider:
  "authMethodConfigRow gen c ix = Inr r \<Longrightarrow>
     authMethodOAuthProviderConfig r = None \<or>
     (\<exists>pc. authMethodOAuthProviderConfig r = Some pc \<and> pc \<in> set (oauthProviderConfigs c))"
  by (auto simp: authMethodConfigRow_def bindE_eq_Inr split: option.splits
      dest: connectOAuthProviderConfig_Inr)

lemma emailConfigOfProject_populated:
  assumes "emailServiceConfig (config g) = Some esc"
    and "proxiedEmailServiceConfig esc \<noteq> None \<or> standardEmailServiceConfig esc \<noteq> None"
  shows "\<exists>y. emailConfigOfProject g = Inr y"
  using assms by (auto simp: emailConfigOfProject_def split: option.splits)

lemma projectPrismaToCrud_total:
  assumes "mapE (oauthProviderOfAuthMethod (projectId g)) (authMethodConfigs (config g)) = Inr mapped"
    and "emailConfigOfProject g = Inr email"
  shows "\<exists>view. projectPrismaToCrud e g = Inr view"
  using assms by (simp add: projectPrismaToCrud_def Let_def)

text \<open>What the transaction has written can always be read back.\<close>

lemma provisioned_read:
  assumes prov: "provisionProject e gen data d = Inr (project, d')"
  shows "\<exists>g view. projects d' (projectId project) = Some g \<and> projectPrismaToCrud e g = Inr view"
proof -
  from provisionProject_Inr [OF prov] obtain ac ar cc cr where
    data: "projectCreateData e gen data = Inr project"
    and rows: "mapE (authMethodConfigRow gen (config project)) (enumerate 0 ac) = Inr ar"
    and d': "d' = d\<lparr>projects := (projects d)(projectId project \<mapsto>
                  project\<lparr>config := (config project)
                    \<lparr>authMethodConfigs := authMethodConfigs (config project) @ ar,
                     connectedAccountConfigs := connectedAccountConfigs (config project) @ cr,
                     permissions := permissions (config project) @
                        [memberPermission project, adminPermission project]\<rparr>\<rparr>)\<rparr>"
    by (elim exE conjE) (rule that; assumption)
  define g where "g = project\<lparr>config := (config project)
                    \<lparr>authMethodConfigs := authMethodConfigs (config project) @ ar,
                     connectedAccountConfigs := connectedAccountConfigs (config project) @ cr,
                     permissions := permissions (config project) @
                        [memberPermission project, adminPermission project]\<rparr>\<rparr>"
  from data obtain email where
    created: "list_all2 (\<lambda>item pc. oauthProviderConfigCreate e item = Inr pc)
       (orDefault (configField req_oauth_providers data) []) (oauthProviderConfigs (config project))"
    and email: "emailServiceConfigCreate (configField req_email_config data) = Inr email"
      "emailServiceConfig (config project) = Some email"
    and empty: "authMethodConfigs (config project) = []"
    by (rule projectCreateData_Inr)
  have populated: "proxiedOAuthConfig pc \<noteq> None \<or> standardOAuthConfig pc \<noteq> None"
    if "pc \<in> set (oauthProviderConfigs (config project))" for pc
  proof -
    from list_all2_right_source [OF created that] obtain item where
      "oauthProviderConfigCreate e item = Inr pc" by blast
    then show ?thesis by (rule oauthProviderConfigCreate_populated)
  qed
  have "\<exists>y. oauthProviderOfAuthMethod (projectId g) r = Inr y" if "r \<in> set ar" for r
  proof -
    from rows have "list_all2 (\<lambda>ix r. authMethodConfigRow gen (config project) ix = Inr r)
        (enumerate 0 ac) ar"
      by (simp add: mapE_eq_Inr)
    from list_all2_right_source [OF this that] obtain ix where
      "authMethodConfigRow gen (config project) ix = Inr r" by blast
    from authMethodConfigRow_provider [OF this] populated
    have "authMethodOAuthProviderConfig r = None \<or>
           (\<exists>pc. authMethodOAuthProviderConfig r = Some pc \<and>
              (proxiedOAuthConfig pc \<noteq> None \<or> standardOAuthConfig pc \<noteq> None))"
      by blast
    then show ?thesis by (rule oauthProviderOfAuthMethod_populated)
  qed
  then have "\<forall>r \<in> set (authMethodConfigs (config g)). \<exists>y. oauthProviderOfAuthMethod (projectId g) r = Inr y"
    using empty by (simp add: g_def)
  from mapE_total [where f = "oauthProviderOfAuthMethod (projectId g)", OF this]
  obtain mapped where
    mapped: "mapE (oauthProviderOfAuthMethod (projectId g)) (authMethodConfigs (config g)) = Inr mapped"
    by (elim exE) (rule that)
  have "emailServiceConfig (config g) = Some email"
    using email(2) by (simp add: g_def)
  from emailConfigOfProject_populated [OF this emailServiceConfigCreate_populated [OF email(1)]]
  obtain ec where "emailConfigOfProject g = Inr ec"
    by (elim exE) (rule that)
  from projectPrismaToCrud_total [OF mapped this, of e] obtain view where
    "projectPrismaToCrud e g = Inr view"
    by (elim exE) (rule that)
  moreover have "projects d' (projectId project) = Some g"
    by (simp add: d' g_def)
  ultimately show ?thesis by blast
qed

lemma createProjectTx_skip_missing:
  "fst (createProjectTx e gen ownerIds data w) =
     fst (createProjectTx e gen
            (filter (\<lambda>u. projectUsers (db w) (''internal'', u) \<noteq> None) ownerIds) data w) \<and>
   db (snd (createProjectTx e gen ownerIds data w)) =
     db (snd (createProjectTx e gen
            (filter (\<lambda>u. projectUsers (db w) (''internal'', u) \<noteq> None) ownerIds) data w))"
proof (cases "provisionProject e gen data (db w)")
  case (Inl err)
  then show ?thesis by (simp add: createProjectTx_def)
next
  case (Inr pd)
  obtain project d where pd: "pd = (project, d)" by (cases pd)
  with Inr have prov: "provisionProject e gen data (db w) = Inr (project, d)" by simp
  have users: "projectUsers (db (w\<lparr>db := d\<rparr>)) = projectUsers (db w)"
    using provisionProject_users [OF prov] by simp
  obtain r1 w1 where l1: "linkOwners (projectId project) ownerIds (w\<lparr>db := d\<rparr>) = (r1, w1)"
    by (cases "linkOwners (projectId project) ownerIds (w\<lparr>db := d\<rparr>)")
  obtain r2 w2 where l2: "linkOwners (projectId project)
      (filter (\<lambda>u. projectUsers (db w) (''internal'', u) \<noteq> None) ownerIds) (w\<lparr>db := d\<rparr>) = (r2, w2)"
    by (cases "linkOwners (projectId project)
      (filter (\<lambda>u. projectUsers (db w) (''internal'', u) \<noteq> None) ownerIds) (w\<lparr>db := d\<rparr>)")
  from linkOwners_skip_missing [of "projectId project" ownerIds "w\<lparr>db := d\<rparr>"] l1 l2
  have same: "r2 = r1" "db w1 = db w2"
    unfolding users by simp_all
  from l2 same(1) have l2': "linkOwners (projectId project)
      (filter (\<lambda>u. projectUsers (db w) (''internal'', u) \<noteq> None) ownerIds) (w\<lparr>db := d\<rparr>) = (r1, w2)"
    by simp
  show ?thesis
  proof (cases r1)
    case (Inl err)
    with prov l1 l2' same(2) show ?thesis by (simp add: createProjectTx_def)
  next
    case (Inr x)
    with prov l1 l2' same(2) show ?thesis
      by (cases "projects (db w2) (projectId project)") (simp_all add: createProjectTx_def)
  qed
qed

lemma createProject_skip_missing:
  "fst (createProject e gen ownerIds data w) =
     fst (createProject e gen
            (filter (\<lambda>u. projectUsers (db w) (''internal'', u) \<noteq> None) ownerIds) data w) \<and>
   db (snd (createProject e gen ownerIds data w)) =
     db (snd (createProject e gen
            (filter (\<lambda>u. projectUsers (db w) (''internal'', u) \<noteq> None) ownerIds) data w))"
proof -
  obtain r1 w1 where t1: "createProjectTx e gen ownerIds data w = (r1, w1)"
    by (cases "createProjectTx e gen ownerIds data w")
  obtain r2 w2 where t2: "createProjectTx e gen
            (filter (\<lambda>u. projectUsers (db w) (''internal'', u) \<noteq> None) ownerIds) data w = (r2, w2)"
    by (cases "createProjectTx e gen
            (filter (\<lambda>u. projectUsers (db w) (''internal'', u) \<noteq> None) ownerIds) data w")
  from createProjectTx_skip_missing [of e gen ownerIds data w] t1 t2
  have same: "r2 = r1" "db w1 = db w2" by simp_all
  from t2 same(1) have t2': "createProjectTx e gen
            (filter (\<lambda>u. projectUsers (db w) (''internal'', u) \<noteq> None) ownerIds) data w = (r1, w2)"
    by simp
  show ?thesis
    using t1 t2' same(2) by (cases r1) (simp_all add: createProject_def transaction_def)
qed

lemma createProject_log:
  assumes "createProject e gen ownerIds data w = (Inr view, w')"
  shows "capturedErrors w' = capturedErrors w @
     map (\<lambda>u. (''project-creation-owner-not-found'', StackAssertionError (ownerNotFoundMessage u)))
       (filter (\<lambda>u. projectUsers (db w) (''internal'', u) = None) ownerIds)"
proof -
  from createProject_Inr [OF assms] obtain project d where
    prov: "provisionProject e gen data (db w) = Inr (project, d)"
    and link: "linkOwners (projectId project) ownerIds (w\<lparr>db := d\<rparr>) = (Inr (), w')"
    by (elim exE conjE) (rule that)
  have users: "projectUsers (db (w\<lparr>db := d\<rparr>)) = projectUsers (db w)"
    using provisionProject_users [OF prov] by simp
  from linkOwners_log [OF link] show ?thesis
    unfolding users by simp
qed

lemma createProject_no_owner:
  assumes "provisionProject e gen data (db w) = Inr (project, d)"
  shows "\<exists>view. createProject e gen [] data w = (Inr view, w\<lparr>db := d\<rparr>)"
proof -
  from provisioned_read [OF assms] obtain g view where
    "projects d (projectId project) = Some g" "projectPrismaToCrud e g = Inr view"
    by (elim exE conjE) (rule that)
  with assms have "createProject e gen [] data w = (Inr view, w\<lparr>db := d\<rparr>)"
    by (simp add: createProject_def transaction_def createProjectTx_def)
  then show ?thesis by (rule exI)
qed

text \<open>
  C8. Owner ids without a user row in the \<open>internal\<close> project never change what
  \<open>createProject\<close> returns nor what it writes: the call behaves as with the present
  owners alone, and on success one anomaly per missing owner is captured. In
  particular, when the writes of the transaction succeed and every owner is missing,
  the call returns the view of the created project.
\<close>

theorem createProject_missing_owner:
  "fst (createProject e gen ownerIds data w) =
     fst (createProject e gen
            (filter (\<lambda>u. projectUsers (db w) (''internal'', u) \<noteq> None) ownerIds) data w) \<and>
   db (snd (createProject e gen ownerIds data w)) =
     db (snd (createProject e gen
            (filter (\<lambda>u. projectUsers (db w) (''internal'', u) \<noteq> None) ownerIds) data w)) \<and>
   (\<forall>view w'. createProject e gen ownerIds data w = (Inr view, w') \<longrightarrow>
      capturedErrors w' = capturedErrors w @
        map (\<lambda>u. (''project-creation-owner-not-found'',
                   StackAssertionError (ownerNotFoundMessage u)))
          (filter (\<lambda>u. projectUsers (db w) (''internal'', u) = None) ownerIds)) \<and>
   (\<forall>project d.
      provisionProject e gen data (db w) = Inr (project, d) \<and>
      (\<forall>u \<in> set ownerIds. projectUsers (db w) (''internal'', u) = None) \<longrightarrow>
      (\<exists>view. createProject e gen ownerIds data w =
         (Inr view,
          \<lparr>db = d,
           capturedErrors = capturedErrors w @
             map (\<lambda>u. (''project-creation-owner-not-found'',
                        StackAssertionError (ownerNotFoundMessage u))) ownerIds\<rparr>)))"
proof -
  have all_missing: "\<exists>view. createProject e gen ownerIds data w =
         (Inr view,
          \<lparr>db = d,
           capturedErrors = capturedErrors w @
             map (\<lambda>u. (''project-creation-owner-not-found'',
                        StackAssertionError (ownerNotFoundMessage u))) ownerIds\<rparr>)"
    if prov: "provisionProject e gen data (db w) = Inr (project, d)"
      and missing: "\<forall>u \<in> set ownerIds. projectUsers (db w) (''internal'', u) = None"
    for project d
  proof -
    from missing have none: "filter (\<lambda>u. projectUsers (db w) (''internal'', u) \<noteq> None) ownerIds = []"
      by (simp add: filter_empty_conv)
    from missing have every: "filter (\<lambda>u. projectUsers (db w) (''internal'', u) = None) ownerIds = ownerIds"
      by (simp add: filter_id_conv)
    from createProject_no_owner [OF prov] obtain view where
      base: "createProject e gen [] data w = (Inr view, w\<lparr>db := d\<rparr>)"
      by (elim exE) (rule that)
    obtain r w' where run: "createProject e gen ownerIds data w = (r, w')"
      by (cases "createProject e gen ownerIds data w")
    from createProject_skip_missing [of e gen ownerIds data w] run base
    have r: "r = Inr view" and d: "db w' = d"
      unfolding none by simp_all
    from run r have ok: "createProject e gen ownerIds data w = (Inr view, w')" by simp
    from createProject_log [OF ok] have "capturedErrors w' = capturedErrors w @
             map (\<lambda>u. (''project-creation-owner-not-found'',
                        StackAssertionError (ownerNotFoundMessage u))) ownerIds"
      unfolding every .
    with d have "w' = \<lparr>db = d,
           capturedErrors = capturedErrors w @
             map (\<lambda>u. (''project-creation-owner-not-found'',
                        StackAssertionError (ownerNotFoundMessage u))) ownerIds\<rparr>"
      by simp
    with ok show ?thesis by blast
  qed
  show ?thesis
    using createProject_skip_missing [of e gen ownerIds data w] createProject_log [of e gen ownerIds data w]
      all_missing
    by (intro conjI allI impI) blast+
qed

theorem createProject_missing_owner_witness:
  "projectUsers (db exampleWorld) (''internal'', ''ghost'') = None \<and>
   fst (createProject exampleEnv exampleFresh [''u1'', ''ghost''] exampleRequest exampleWorld) =
     Inr exampleView \<and>
   fst (createProject exampleEnv exampleFresh [''u1''] exampleRequest exampleWorld) =
     Inr exampleView \<and>
   capturedErrors
     (snd (createProject exampleEnv exampleFresh [''u1'', ''ghost''] exampleRequest exampleWorld)) =
     [(''project-creation-owner-not-found'', StackAssertionError (ownerNotFoundMessage ''ghost''))]"
proof -
  have missing: "projectUsers (db exampleWorld) (''internal'', ''ghost'') = None"
    and present: "projectUsers (db exampleWorld) (''internal'', ''u1'') \<noteq> None"
    and log: "capturedErrors exampleWorld = []"
    by (simp_all add: exampleWorld_def)
  have view: "fst (createProject exampleEnv exampleFresh [''u1'', ''ghost''] exampleRequest exampleWorld) =
      Inr exampleView"
    using example_run by (simp add: prod_eq_iff)
  from createProject_missing_owner
         [of exampleEnv exampleFresh "[''u1'', ''ghost'']" exampleRequest exampleWorld]
       missing present log
  have same: "fst (createProject exampleEnv exampleFresh [''u1'', ''ghost''] exampleRequest exampleWorld) =
      fst (createProject exampleEnv exampleFresh [''u1''] exampleRequest exampleWorld)"
    and captured: "\<forall>view w'.
          createProject exampleEnv exampleFresh [''u1'', ''ghost''] exampleRequest exampleWorld =
          (Inr view, w') \<longrightarrow>
          capturedErrors w' =
          [(''project-creation-owner-not-found'',
            StackAssertionError (ownerNotFoundMessage ''ghost''))]"
    by simp_all
  from captured example_run have "capturedErrors
     (snd (createProject exampleEnv exampleFresh [''u1'', ''ghost''] exampleRequest exampleWorld)) =
     [(''project-creation-owner-not-found'', StackAssertionError (ownerNotFoundMessage ''ghost''))]"
    by blast
  with missing view same show ?thesis by simp
qed

lemma ownerServerMetadata_object:
  assumes "meta = JObject kvs \<or> (meta = JNull \<and> kvs = [])"
    and "nullish (map_of kvs ''managedProjectIds'') (JArray []) = JArray ids"
  shows "ownerServerMetadata pid meta =
           Inr (JObject (AList.update ''managedProjectIds'' (JArray (ids @ [JString pid])) kvs))"
  using assms by (auto simp: ownerServerMetadata_def)

lemma linkOwner_other:
  "v \<noteq> u \<Longrightarrow> linkOwner pid v w = (r, w') \<Longrightarrow>
   projectUsers (db w') (''internal'', u) = projectUsers (db w) (''internal'', u)"
  by (auto simp: linkOwner_def captureError_def split: option.splits sum.splits)

lemma linkOwner_object:
  assumes "projectUsers (db w) (''internal'', u) = Some pu"
    and "serverMetadata pu = JObject kvs \<or> (serverMetadata pu = JNull \<and> kvs = [])"
    and "nullish (map_of kvs ''managedProjectIds'') (JArray []) = JArray ids"
  shows "linkOwner pid u w =
           (Inr (),
            w\<lparr>db := (db w)\<lparr>projectUsers :=
                 (projectUsers (db w))((''internal'', u) \<mapsto>
                    pu\<lparr>serverMetadata :=
                         JObject (AList.update ''managedProjectIds''
                                    (JArray (ids @ [JString pid])) kvs)\<rparr>)\<rparr>\<rparr>)"
  using assms(1) ownerServerMetadata_object [OF assms(2,3), of pid]
  by (simp add: linkOwner_def)

lemma linkOwners_user:
  "linkOwners pid us w = (Inr x, w') \<Longrightarrow>
   projectUsers (db w) (''internal'', u) = Some pu \<Longrightarrow>
   serverMetadata pu = JObject kvs \<or> (serverMetadata pu = JNull \<and> kvs = []) \<Longrightarrow>
   nullish (map_of kvs ''managedProjectIds'') (JArray []) = JArray ids \<Longrightarrow>
   \<exists>pu'. projectUsers (db w') (''internal'', u) = Some pu' \<and>
     (if count_list us u = 0 then pu' = pu
      else \<exists>kvs'. serverMetadata pu' = JObject kvs' \<and>
             map_of kvs' ''managedProjectIds'' =
               Some (JArray (ids @ replicate (count_list us u) (JString pid))) \<and>
             (\<forall>k. k \<noteq> ''managedProjectIds'' \<longrightarrow> map_of kvs' k = map_of kvs k))"
proof (induction us arbitrary: w pu kvs ids)
  case Nil
  then show ?case by simp
next
  case (Cons v us)
  obtain r1 w1 where step: "linkOwner pid v w = (r1, w1)" by (cases "linkOwner pid v w")
  with Cons.prems(1) obtain y where r1: "r1 = Inr y" and rest: "linkOwners pid us w1 = (Inr x, w')"
    by (cases r1) auto
  show ?case
  proof (cases "v = u")
    case False
    from linkOwner_other [OF False step] Cons.prems(2)
    have "projectUsers (db w1) (''internal'', u) = Some pu" by simp
    from Cons.IH [OF rest this Cons.prems(3,4)] False show ?thesis by auto
  next
    case True
    define kvs1 where
      "kvs1 = AList.update ''managedProjectIds'' (JArray (ids @ [JString pid])) kvs"
    define pu1 where "pu1 = pu\<lparr>serverMetadata := JObject kvs1\<rparr>"
    from linkOwner_object [OF Cons.prems(2,3,4), of pid] step True
    have w1: "w1 = w\<lparr>db := (db w)\<lparr>projectUsers :=
                 (projectUsers (db w))((''internal'', u) \<mapsto> pu1)\<rparr>\<rparr>"
      by (simp add: pu1_def kvs1_def)
    then have user1: "projectUsers (db w1) (''internal'', u) = Some pu1" by simp
    have meta1: "serverMetadata pu1 = JObject kvs1 \<or> (serverMetadata pu1 = JNull \<and> kvs1 = [])"
      by (simp add: pu1_def)
    have mp1: "map_of kvs1 ''managedProjectIds'' = Some (JArray (ids @ [JString pid]))"
      by (simp add: kvs1_def update_conv')
    then have ids1: "nullish (map_of kvs1 ''managedProjectIds'') (JArray []) =
        JArray (ids @ [JString pid])"
      by simp
    have others: "map_of kvs1 k = map_of kvs k" if "k \<noteq> ''managedProjectIds''" for k
      using that by (simp add: kvs1_def update_conv')
    from Cons.IH [OF rest user1 meta1 ids1] obtain pu' where
      stored: "projectUsers (db w') (''internal'', u) = Some pu'"
      and shape: "if count_list us u = 0 then pu' = pu1
        else \<exists>kvs'. serverMetadata pu' = JObject kvs' \<and>
             map_of kvs' ''managedProjectIds'' =
               Some (JArray ((ids @ [JString pid]) @ replicate (count_list us u) (JString pid))) \<and>
             (\<forall>k. k \<noteq> ''managedProjectIds'' \<longrightarrow> map_of kvs' k = map_of kvs1 k)"
      by blast
    have "\<exists>kvs'. serverMetadata pu' = JObject kvs' \<and>
             map_of kvs' ''managedProjectIds'' =
               Some (JArray (ids @ replicate (Suc (count_list us u)) (JString pid))) \<and>
             (\<forall>k. k \<noteq> ''managedProjectIds'' \<longrightarrow> map_of kvs' k = map_of kvs k)"
    proof (cases "count_list us u = 0")
      case True
      with shape have "pu' = pu1" by simp
      with mp1 others True show ?thesis by (auto simp: pu1_def)
    next
      case False
      with shape obtain kvs' where "serverMetadata pu' = JObject kvs'"
        "map_of kvs' ''managedProjectIds'' =
               Some (JArray ((ids @ [JString pid]) @ replicate (count_list us u) (JString pid)))"
        "\<forall>k. k \<noteq> ''managedProjectIds'' \<longrightarrow> map_of kvs' k = map_of kvs1 k"
        by auto
      with others show ?thesis by (auto simp: replicate_app_Cons_same)
    qed
    with stored True show ?thesis by simp
  qed
qed

text \<open>
  C9. For an owner who exists, whose \<open>serverMetadata\<close> is an object (or null, read as
  the empty object) and whose \<open>managedProjectIds\<close> is an array (or absent or null, read
  as the empty array), a successful \<open>createProject\<close> leaves the owner's metadata an
  object in which \<open>managedProjectIds\<close> is the old array followed by the new project
  id, once for every occurrence of the owner in \<open>ownerIds\<close>, and in which every
  other key has the value it had.
\<close>

theorem createProject_owner_metadata:
  assumes "createProject e gen ownerIds data w = (Inr view, w')"
    and "userId \<in> set ownerIds"
    and "projectUsers (db w) (''internal'', userId) = Some pu"
    and "serverMetadata pu = JObject kvs \<or> (serverMetadata pu = JNull \<and> kvs = [])"
    and "nullish (map_of kvs ''managedProjectIds'') (JArray []) = JArray ids"
  shows "\<exists>kvs'. projectUsers (db w') (''internal'', userId) = Some \<lparr>serverMetadata = JObject kvs'\<rparr> \<and>
           map_of kvs' ''managedProjectIds'' =
             Some (JArray (ids @ replicate (count_list ownerIds userId) (JString (newProjectId gen)))) \<and>
           (\<forall>k. k \<noteq> ''managedProjectIds'' \<longrightarrow> map_of kvs' k = map_of kvs k)"
proof -
  from createProject_Inr [OF assms(1)] obtain project d where
    prov: "provisionProject e gen data (db w) = Inr (project, d)"
    and pid: "projectId project = newProjectId gen"
    and link: "linkOwners (projectId project) ownerIds (w\<lparr>db := d\<rparr>) = (Inr (), w')"
    by (elim exE conjE) (rule that)
  have user: "projectUsers (db (w\<lparr>db := d\<rparr>)) (''internal'', userId) = Some pu"
    using provisionProject_users [OF prov] assms(3) by simp
  from assms(2) have count: "count_list ownerIds userId \<noteq> 0"
    by (simp add: count_list_0_iff)
  from linkOwners_user [OF link user assms(4,5)] count obtain pu' kvs' where
    "projectUsers (db w') (''internal'', userId) = Some pu'"
    "serverMetadata pu' = JObject kvs'"
    "map_of kvs' ''managedProjectIds'' =
       Some (JArray (ids @ replicate (count_list ownerIds userId) (JString (projectId project))))"
    "\<forall>k. k \<noteq> ''managedProjectIds'' \<longrightarrow> map_of kvs' k = map_of kvs k"
    by auto
  moreover from this(2) have "pu' = \<lparr>serverMetadata = JObject kvs'\<rparr>"
    by (cases pu') simp
  ultimately show ?thesis
    unfolding pid by blast
qed

theorem createProject_owner_metadata_witness:
  "\<exists>kvs'. projectUsers
            (db (snd (createProject exampleEnv exampleFresh [''u1'', ''ghost'']
                        exampleRequest exampleWorld)))
            (''internal'', ''u1'') = Some \<lparr>serverMetadata = JObject kvs'\<rparr> \<and>
          map_of kvs' ''managedProjectIds'' = Some (JArray [JString ''p0'', JString ''p1'']) \<and>
          map_of kvs' ''plan'' = Some (JString ''free'')"
proof -
  have user: "projectUsers (db exampleWorld) (''internal'', ''u1'') =
      Some \<lparr>serverMetadata =
              JObject [(''plan'', JString ''free''),
                       (''managedProjectIds'', JArray [JString ''p0''])]\<rparr>"
    by (simp add: exampleWorld_def)
  from createProject_owner_metadata
         [OF example_run _ user, of "[(''plan'', JString ''free''),
                       (''managedProjectIds'', JArray [JString ''p0''])]" "[JString ''p0'']"]
  obtain kvs' where
    "projectUsers
            (db (snd (createProject exampleEnv exampleFresh [''u1'', ''ghost'']
                        exampleRequest exampleWorld)))
            (''internal'', ''u1'') = Some \<lparr>serverMetadata = JObject kvs'\<rparr>"
    "map_of kvs' ''managedProjectIds'' = Some (JArray [JString ''p0'', JString ''p1''])"
    "\<forall>k. k \<noteq> ''managedProjectIds'' \<longrightarrow>
         map_of kvs' k = map_of [(''plan'', JString ''free''),
                       (''managedProjectIds'', JArray [JString ''p0''])] k"
    by (auto simp: exampleFresh_def)
  then show ?thesis by (intro exI [of _ kvs']) simp
qed

subsection \<open>Managed project ids\<close>

text \<open>
  C10 (as amended). \<open>listManagedProjectIds\<close> returns the empty list when
  \<open>server_metadata\<close> is \<^verbatim>\<open>null\<close>, an array, an object without the key
  \<open>managedProjectIds\<close>, or an object whose \<open>managedProjectIds\<close> is \<^verbatim>\<open>null\<close>. It
  fails with a \<open>StackAssertionError\<close> when the \<^verbatim>\<open>typeof\<close> of \<open>server_metadata\<close> is not
  \<open>object\<close> (\<^verbatim>\<open>undefined\<close>, a string, a number, a boolean), and when
  \<open>managedProjectIds\<close> is present, not \<^verbatim>\<open>null\<close>, and not an array of strings.
\<close>

theorem listManagedProjectIds_cases:
  "listManagedProjectIds \<lparr>server_metadata = Some JNull\<rparr> = Inr [] \<and>
   listManagedProjectIds \<lparr>server_metadata = Some (JArray xs)\<rparr> = Inr [] \<and>
   (map_of kvs ''managedProjectIds'' = None \<or> map_of kvs ''managedProjectIds'' = Some JNull \<longrightarrow>
      listManagedProjectIds \<lparr>server_metadata = Some (JObject kvs)\<rparr> = Inr []) \<and>
   (typeof m \<noteq> ''object'' \<longrightarrow>
      listManagedProjectIds \<lparr>server_metadata = m\<rparr> =
        Inl (StackAssertionError ''Invalid server metadata, did something go wrong?'')) \<and>
   (map_of kvs' ''managedProjectIds'' = Some v \<and> v \<noteq> JNull \<and> \<not> isStringArray v \<longrightarrow>
      listManagedProjectIds \<lparr>server_metadata = Some (JObject kvs')\<rparr> =
        Inl (StackAssertionError
          ''Invalid server metadata, did something go wrong? Expected string array''))"
proof -
  have absent: "listManagedProjectIds \<lparr>server_metadata = Some (JObject kvs)\<rparr> = Inr []"
    if "map_of kvs ''managedProjectIds'' = None \<or> map_of kvs ''managedProjectIds'' = Some JNull"
    using that by (auto simp add: listManagedProjectIds_def)
  have nonobject: "listManagedProjectIds \<lparr>server_metadata = m\<rparr> =
       Inl (StackAssertionError ''Invalid server metadata, did something go wrong?'')"
    if "typeof m \<noteq> ''object''"
    using that by (simp add: listManagedProjectIds_def)
  have invalid: "listManagedProjectIds \<lparr>server_metadata = Some (JObject kvs')\<rparr> =
       Inl (StackAssertionError
         ''Invalid server metadata, did something go wrong? Expected string array'')"
    if "map_of kvs' ''managedProjectIds'' = Some v" "v \<noteq> JNull" "\<not> isStringArray v"
    using that by (cases v) (simp_all add: listManagedProjectIds_def)
  show ?thesis
    using absent nonobject invalid by (simp add: listManagedProjectIds_def)
qed

theorem listManagedProjectIds_cases_witness:
  "listManagedProjectIds \<lparr>server_metadata = Some (JObject [(''plan'', JString ''free'')])\<rparr> = Inr [] \<and>
   listManagedProjectIds \<lparr>server_metadata = Some (JString ''x'')\<rparr> =
     Inl (StackAssertionError ''Invalid server metadata, did something go wrong?'') \<and>
   listManagedProjectIds \<lparr>server_metadata = None\<rparr> =
     Inl (StackAssertionError ''Invalid server metadata, did something go wrong?'') \<and>
   listManagedProjectIds
       \<lparr>server_metadata = Some (JObject [(''managedProjectIds'', JArray [JString ''p1'', JNumber 2])])\<rparr> =
     Inl (StackAssertionError
       ''Invalid server metadata, did something go wrong? Expected string array'')"
  using listManagedProjectIds_cases
          [where kvs = "[(''plan'', JString ''free'')]" and m = "Some (JString ''x'')"
             and kvs' = "[(''managedProjectIds'', JArray [JString ''p1'', JNumber 2])]"
             and v = "JArray [JString ''p1'', JNumber 2]"]
        listManagedProjectIds_cases [where m = "None"]
  by simp

text \<open>
  C10 as stated fails: with \<open>managedProjectIds\<close> present and \<^verbatim>\<open>null\<close> (so not an
  array of strings) nothing is thrown; the \<^verbatim>\<open>?? []\<close> of the source reads it as absent.
\<close>

theorem listManagedProjectIds_null_counterexample:
  "map_of [(''managedProjectIds'', JNull)] ''managedProjectIds'' = Some JNull \<and>
   \<not> isStringArray JNull \<and>
   listManagedProjectIds \<lparr>server_metadata = Some (JObject [(''managedProjectIds'', JNull)])\<rparr> = Inr []"
  by (simp add: listManagedProjectIds_def)

end
